theory Spec2Isabelle
  imports Main
begin

section \<open>JavaScript values and built-ins used by the pages\<close>

text \<open>
  The pages are React components written in JavaScript.  The values that flow through them are
  the JSON documents returned by the HTTP endpoints and the strings typed into the forms.
  A JSON document is a \<open>json\<close>; a JavaScript value is a \<open>json option\<close>, where \<open>None\<close> is
  \<^verbatim>\<open>undefined\<close> and \<open>Some JNull\<close> is \<^verbatim>\<open>null\<close>.

  Modelling conventions:
  \<^item> a JavaScript string is a \<open>string\<close>; every \<open>char\<close> stands for one UTF-16 code unit below 256;
  \<^item> JSON numbers are integers (\<open>JNum\<close>);
  \<^item> an object is the list of its members in document order; \<^verbatim>\<open>JSON.parse\<close> keeps the last of
    several members with one key.
\<close>

datatype json =
    JNull
  | JBool bool
  | JNum int
  | JStr string
  | JArr "json list"
  | JObj "(string \<times> json) list"

type_synonym jsval = "json option"

text \<open>A thrown \<^verbatim>\<open>Error\<close> object; the handlers only ever read its \<^verbatim>\<open>message\<close>.\<close>

datatype js_exn = Exn (message: string)

text \<open>
  What the browser provides and this development does not model: the WHATWG URL parser
  (\<^verbatim>\<open>new URL(s)\<close> succeeds), the locale-dependent \<^verbatim>\<open>new Date(v).toLocaleDateString()\<close>, and the
  numeric reading of a string in a comparison (\<^verbatim>\<open>ToNumber(s) > 0\<close>).
\<close>

record host =
  parses_as_URL :: "string \<Rightarrow> bool"
  toLocaleDateString :: "jsval \<Rightarrow> string"
  string_gt0 :: "string \<Rightarrow> bool"

subsection \<open>Truthiness, \<^verbatim>\<open>||\<close>, \<^verbatim>\<open>ToString\<close>\<close>

fun truthy :: "jsval \<Rightarrow> bool" where
  "truthy None = False"
| "truthy (Some JNull) = False"
| "truthy (Some (JBool b)) = b"
| "truthy (Some (JNum n)) = (n \<noteq> 0)"
| "truthy (Some (JStr s)) = (s \<noteq> [])"
| "truthy (Some (JArr xs)) = True"
| "truthy (Some (JObj kvs)) = True"

definition js_or :: "jsval \<Rightarrow> jsval \<Rightarrow> jsval" where
  "js_or a b = (if truthy a then a else b)"

definition digit_char :: "nat \<Rightarrow> char" where
  "digit_char d = ''0123456789'' ! (d mod 10)"

fun decimal :: "nat \<Rightarrow> string" where
  "decimal n =
     (if n < 10 then [digit_char n] else decimal (n div 10) @ [digit_char (n mod 10)])"

declare decimal.simps [simp del]

text \<open>\<^verbatim>\<open>Number.prototype.toString\<close> on an integer.\<close>

definition Number_toString :: "int \<Rightarrow> string" where
  "Number_toString i = (if 0 \<le> i then decimal (nat i) else CHR ''-'' # decimal (nat (- i)))"

text \<open>
  \<^verbatim>\<open>ToString\<close> on a JSON value, and \<^verbatim>\<open>Array.prototype.join\<close>: an array prints its elements
  separated by the separator, \<^verbatim>\<open>null\<close> elements as the empty string.
\<close>

fun js_string :: "json \<Rightarrow> string"
  and js_join :: "string \<Rightarrow> json list \<Rightarrow> string" where
  "js_string JNull = ''null''"
| "js_string (JBool b) = (if b then ''true'' else ''false'')"
| "js_string (JNum i) = Number_toString i"
| "js_string (JStr s) = s"
| "js_string (JArr xs) = js_join '','' xs"
| "js_string (JObj kvs) = ''[object Object]''"
| "js_join sep [] = []"
| "js_join sep [x] = (case x of JNull \<Rightarrow> [] | _ \<Rightarrow> js_string x)"
| "js_join sep (x # y # ys) =
     (case x of JNull \<Rightarrow> [] | _ \<Rightarrow> js_string x) @ sep @ js_join sep (y # ys)"

definition ToString :: "jsval \<Rightarrow> string" where
  "ToString v = (case v of None \<Rightarrow> ''undefined'' | Some j \<Rightarrow> js_string j)"

text \<open>\<^verbatim>\<open>new Error(v)\<close>: the message is \<^verbatim>\<open>ToString(v)\<close>, and empty when \<^verbatim>\<open>v\<close> is undefined.\<close>

definition new_Error :: "jsval \<Rightarrow> js_exn" where
  "new_Error v = (case v of None \<Rightarrow> Exn [] | Some j \<Rightarrow> Exn (js_string j))"

subsection \<open>Property access\<close>

definition cannot_read :: "string \<Rightarrow> string \<Rightarrow> string" where
  "cannot_read base k =
     ''Cannot read properties of '' @ base @ '' (reading '' @ [CHR 0x27] @ k @ [CHR 0x27] @ '')''"

text \<open>
  \<^verbatim>\<open>v.k\<close> for the keys the pages read.  Reading a property of \<^verbatim>\<open>null\<close> or \<^verbatim>\<open>undefined\<close> throws a
  TypeError (the message is V8's wording; no handler depends on it).  Arrays and strings have
  a \<^verbatim>\<open>length\<close>; JSON data has no other inherited property among the keys read.
\<close>

fun get_prop :: "jsval \<Rightarrow> string \<Rightarrow> js_exn + jsval" where
  "get_prop None k = Inl (Exn (cannot_read ''undefined'' k))"
| "get_prop (Some JNull) k = Inl (Exn (cannot_read ''null'' k))"
| "get_prop (Some (JObj kvs)) k = Inr (map_of (rev kvs) k)"
| "get_prop (Some (JArr xs)) k = Inr (if k = ''length'' then Some (JNum (int (length xs))) else None)"
| "get_prop (Some (JStr s)) k = Inr (if k = ''length'' then Some (JNum (int (length s))) else None)"
| "get_prop (Some (JBool b)) k = Inr None"
| "get_prop (Some (JNum n)) k = Inr None"

text \<open>Optional chaining \<^verbatim>\<open>v?.k\<close>.\<close>

fun opt_prop :: "jsval \<Rightarrow> string \<Rightarrow> jsval" where
  "opt_prop None k = None"
| "opt_prop (Some JNull) k = None"
| "opt_prop (Some (JObj kvs)) k = map_of (rev kvs) k"
| "opt_prop (Some (JArr xs)) k = (if k = ''length'' then Some (JNum (int (length xs))) else None)"
| "opt_prop (Some (JStr s)) k = (if k = ''length'' then Some (JNum (int (length s))) else None)"
| "opt_prop (Some (JBool b)) k = None"
| "opt_prop (Some (JNum n)) k = None"

definition isArray :: "jsval \<Rightarrow> bool" where
  "isArray v = (case v of Some (JArr xs) \<Rightarrow> True | _ \<Rightarrow> False)"

text \<open>
  \<^verbatim>\<open>v > 0\<close>: \<^verbatim>\<open>undefined\<close> and objects compare as NaN, \<^verbatim>\<open>null\<close> as 0, booleans as 0 or 1, strings
  and arrays through their numeric reading.
\<close>

fun js_gt0 :: "host \<Rightarrow> jsval \<Rightarrow> bool" where
  "js_gt0 h None = False"
| "js_gt0 h (Some JNull) = False"
| "js_gt0 h (Some (JBool b)) = b"
| "js_gt0 h (Some (JNum n)) = (0 < n)"
| "js_gt0 h (Some (JStr s)) = string_gt0 h s"
| "js_gt0 h (Some (JArr xs)) = string_gt0 h (js_string (JArr xs))"
| "js_gt0 h (Some (JObj kvs)) = False"

subsection \<open>Strings: \<^verbatim>\<open>trim\<close>, \<^verbatim>\<open>startsWith\<close>, URL encoding, \<^verbatim>\<open>JSON.stringify\<close>\<close>

definition is_js_space :: "char \<Rightarrow> bool" where
  "is_js_space c = ((of_char c :: nat) \<in> {9, 10, 11, 12, 13, 32, 160})"

definition trim :: "string \<Rightarrow> string" where
  "trim s = rev (dropWhile is_js_space (rev (dropWhile is_js_space s)))"

definition startsWith :: "string \<Rightarrow> string \<Rightarrow> bool" where
  "startsWith s p = (take (length p) s = p)"

definition hex_upper :: "nat \<Rightarrow> char" where
  "hex_upper d = ''0123456789ABCDEF'' ! (d mod 16)"

definition hex_lower :: "nat \<Rightarrow> char" where
  "hex_lower d = ''0123456789abcdef'' ! (d mod 16)"

definition pct_byte :: "nat \<Rightarrow> string" where
  "pct_byte n = [CHR ''%'', hex_upper (n div 16), hex_upper n]"

text \<open>The UTF-8 bytes of a code unit below 256.\<close>

definition utf8 :: "char \<Rightarrow> nat list" where
  "utf8 c = (let n = (of_char c :: nat) in if n < 128 then [n] else [192 + n div 64, 128 + n mod 64])"

definition is_alnum :: "char \<Rightarrow> bool" where
  "is_alnum c =
     (c \<in> set ''ABCDEFGHIJKLMNOPQRSTUVWXYZabcdefghijklmnopqrstuvwxyz0123456789'')"

definition encodeURIComponent :: "string \<Rightarrow> string" where
  "encodeURIComponent s =
     concat (map (\<lambda>c. if is_alnum c \<or> c \<in> set (''-_.!~*()'' @ [CHR 0x27]) then [c]
                       else concat (map pct_byte (utf8 c))) s)"

text \<open>
  \<^verbatim>\<open>URLSearchParams.prototype.toString\<close>: the \<^verbatim>\<open>application/x-www-form-urlencoded\<close> serialiser.
\<close>

definition form_encode :: "string \<Rightarrow> string" where
  "form_encode s =
     concat (map (\<lambda>c. if is_alnum c \<or> c \<in> set ''*-._'' then [c]
                       else if c = CHR '' '' then ''+''
                       else concat (map pct_byte (utf8 c))) s)"

fun URLSearchParams_toString :: "(string \<times> string) list \<Rightarrow> string" where
  "URLSearchParams_toString [] = []"
| "URLSearchParams_toString [(k, v)] = form_encode k @ ''='' @ form_encode v"
| "URLSearchParams_toString ((k, v) # kv # kvs) =
     form_encode k @ ''='' @ form_encode v @ ''&'' @ URLSearchParams_toString (kv # kvs)"

text \<open>\<^verbatim>\<open>JSON.stringify\<close> of a string (QuoteJSONString) and of the object \<^verbatim>\<open>{question: q}\<close>.\<close>

definition json_escape :: "char \<Rightarrow> string" where
  "json_escape c =
     (let n = (of_char c :: nat) in
      if n = 34 then [CHR 0x5C, CHR 0x22]
      else if n = 92 then [CHR 0x5C, CHR 0x5C]
      else if n = 8 then [CHR 0x5C, CHR ''b'']
      else if n = 12 then [CHR 0x5C, CHR ''f'']
      else if n = 10 then [CHR 0x5C, CHR ''n'']
      else if n = 13 then [CHR 0x5C, CHR ''r'']
      else if n = 9 then [CHR 0x5C, CHR ''t'']
      else if n < 32 then [CHR 0x5C, CHR ''u'', CHR ''0'', CHR ''0'', hex_lower (n div 16), hex_lower n]
      else [c])"

definition QuoteJSONString :: "string \<Rightarrow> string" where
  "QuoteJSONString s = [CHR 0x22] @ concat (map json_escape s) @ [CHR 0x22]"

definition JSON_stringify_question :: "string \<Rightarrow> string" where
  "JSON_stringify_question q =
     ''{'' @ QuoteJSONString ''question'' @ '':'' @ QuoteJSONString q @ ''}''"

subsection \<open>HTTP requests and how they settle\<close>

record http_request =
  req_method :: string
  req_url :: string
  req_params :: "(string \<times> string) list"
  req_headers :: "(string \<times> string) list"
  req_body :: "string option"

text \<open>
  \<^verbatim>\<open>fetch\<close> either rejects (the network failed; the TypeError's message is the browser's) or
  resolves with a status and a body; \<^verbatim>\<open>response.json()\<close> then rejects with a SyntaxError
  (\<open>Inl\<close>, its message) or yields the parsed document (\<open>Inr\<close>).
\<close>

datatype fetch_outcome =
    FetchRejected string
  | FetchResponse nat "string + json"

definition response_ok :: "nat \<Rightarrow> bool" where
  "response_ok status = (200 \<le> status \<and> status \<le> 299)"

text \<open>
  The error \<^verbatim>\<open>axios\<close> rejects with: \<^verbatim>\<open>error.response\<close> (status and data) when the server answered
  outside 2xx, \<^verbatim>\<open>error.request\<close> when a request was made, and \<^verbatim>\<open>error.message\<close>.  A plain
  \<^verbatim>\<open>new Error(m)\<close> thrown by the handler has neither \<^verbatim>\<open>response\<close> nor \<^verbatim>\<open>request\<close>.
\<close>

datatype axios_error = AxiosError (response: "(nat \<times> jsval) option") (request: bool) (ax_message: string)

datatype axios_outcome =
    AxiosResolved nat jsval
  | AxiosRejected axios_error


section \<open>The pages\<close>

text \<open>
  Every page keeps its view state in \<^verbatim>\<open>useState\<close> cells; a record holds the cells.  An
  \<^verbatim>\<open>async\<close> submit handler runs in two parts: the code up to the first \<^verbatim>\<open>await\<close> runs when the form
  is submitted (\<open>_begin\<close>: the new cells and the request dispatched, if any), the rest when the
  request settles (\<open>_settle\<close>).  The handler's \<^verbatim>\<open>try\<close> body is \<open>_try\<close> (\<open>Inl\<close>: it threw), its
  \<^verbatim>\<open>catch\<close> clause \<open>_catch\<close>, its \<^verbatim>\<open>finally\<close> clause \<open>_finally\<close>.
\<close>

record view_cells =
  isLoading :: bool
  error :: jsval

record 'f form_cells = view_cells +
  formData :: 'f

definition null :: jsval where
  "null = Some JNull"

definition str :: "string \<Rightarrow> jsval" where
  "str s = Some (JStr s)"

subsection \<open>HelloWorldGenerator.jsx\<close>

record hw_state = view_cells +
  question :: string
  answer :: jsval

definition HelloWorldGenerator_init :: hw_state where
  "HelloWorldGenerator_init =
     \<lparr>isLoading = False, error = null, question = [], answer = str []\<rparr>"

definition HelloWorldGenerator_handleInputChange :: "string \<Rightarrow> hw_state \<Rightarrow> hw_state" where
  "HelloWorldGenerator_handleInputChange v st = st\<lparr>question := v, error := null\<rparr>"

definition HelloWorldGenerator_handleSubmit_begin :: "hw_state \<Rightarrow> hw_state \<times> http_request option" where
  "HelloWorldGenerator_handleSubmit_begin st =
     (if trim (question st) = [] then (st\<lparr>error := str ''Please enter a question''\<rparr>, None)
      else (st\<lparr>isLoading := True, answer := str [], error := null\<rparr>,
            Some \<lparr>req_method = ''GET'', req_url = ''http://localhost:8002/ask'',
                  req_params = [(''question'', trim (question st))],
                  req_headers = [], req_body = None\<rparr>))"

definition HelloWorldGenerator_try :: "axios_outcome \<Rightarrow> hw_state \<Rightarrow> axios_error + hw_state" where
  "HelloWorldGenerator_try out st =
     (case out of
        AxiosRejected e \<Rightarrow> Inl e
      | AxiosResolved status d \<Rightarrow>
          if truthy d then
            (case get_prop d ''answer'' of
               Inl e \<Rightarrow> Inl (AxiosError None False (message e))
             | Inr a \<Rightarrow>
                 if truthy a then Inr (st\<lparr>answer := a\<rparr>)
                 else Inl (AxiosError None False ''Invalid response format from server''))
          else Inl (AxiosError None False ''Invalid response format from server''))"

definition HelloWorldGenerator_catch :: "axios_error \<Rightarrow> hw_state \<Rightarrow> hw_state" where
  "HelloWorldGenerator_catch e st =
     (case response e of
        Some (status, d) \<Rightarrow>
          st\<lparr>error := js_or (opt_prop d ''error'') (str (''Server error: '' @ decimal status))\<rparr>
      | None \<Rightarrow>
          if request e
          then st\<lparr>error := str ''No response from server. Please check if the backend is running.''\<rparr>
          else st\<lparr>error := js_or (str (ax_message e)) (str ''Failed to get an answer. Please try again.'')\<rparr>)"

definition HelloWorldGenerator_finally :: "hw_state \<Rightarrow> hw_state" where
  "HelloWorldGenerator_finally st = st\<lparr>isLoading := False\<rparr>"

definition HelloWorldGenerator_handleSubmit_settle :: "axios_outcome \<Rightarrow> hw_state \<Rightarrow> hw_state" where
  "HelloWorldGenerator_handleSubmit_settle out st =
     HelloWorldGenerator_finally
       (case HelloWorldGenerator_try out st of
          Inr st' \<Rightarrow> st'
        | Inl e \<Rightarrow> HelloWorldGenerator_catch e st)"

subsection \<open>NewsSearcher (App.js)\<close>

record form_search =
  url :: string
  query :: string
  "method" :: string

record ns_state = "form_search form_cells" +
  articles :: jsval

definition NewsSearcher_init :: ns_state where
  "NewsSearcher_init =
     \<lparr>isLoading = False, error = null,
      formData = \<lparr>url = [], query = [], method = ''combined''\<rparr>, articles = null\<rparr>"

text \<open>
  \<^verbatim>\<open>{...prev, [name]: value}\<close>.  The form has the fields \<^verbatim>\<open>url\<close>, \<^verbatim>\<open>query\<close> and \<^verbatim>\<open>method\<close>; a member
  under any other name would never be read, and is not kept.
\<close>

definition set_search_field :: "string \<Rightarrow> string \<Rightarrow> form_search \<Rightarrow> form_search" where
  "set_search_field name v f =
     (if name = ''url'' then f\<lparr>url := v\<rparr>
      else if name = ''query'' then f\<lparr>query := v\<rparr>
      else if name = ''method'' then f\<lparr>method := v\<rparr>
      else f)"

definition NewsSearcher_handleInputChange :: "string \<Rightarrow> string \<Rightarrow> ns_state \<Rightarrow> ns_state" where
  "NewsSearcher_handleInputChange name v st =
     (if name = ''url'' \<and> v \<noteq> [] \<and> \<not> startsWith v ''http''
      then st\<lparr>formData := set_search_field name
                 (''https://'' @ (if startsWith v ''www.'' then [] else ''www.'') @ v) (formData st),
              error := null\<rparr>
      else st\<lparr>formData := set_search_field name v (formData st), error := null\<rparr>)"

definition NewsSearcher_handleSubmit_begin :: "ns_state \<Rightarrow> ns_state \<times> http_request option" where
  "NewsSearcher_handleSubmit_begin st =
     (st\<lparr>isLoading := True, articles := null, error := null\<rparr>,
      Some \<lparr>req_method = ''GET'',
            req_url = ''http://localhost:8000/search?'' @
              URLSearchParams_toString
                [(''url'', url (formData st)), (''query'', query (formData st)),
                 (''method'', method (formData st))],
            req_params = [], req_headers = [], req_body = None\<rparr>)"

definition NewsSearcher_try :: "fetch_outcome \<Rightarrow> ns_state \<Rightarrow> js_exn + ns_state" where
  "NewsSearcher_try out st =
     (case out of
        FetchRejected m \<Rightarrow> Inl (Exn m)
      | FetchResponse status body \<Rightarrow>
         (case body of
            Inl m \<Rightarrow> Inl (Exn m)
          | Inr d \<Rightarrow>
             if \<not> response_ok status then
               (case get_prop (Some d) ''error'' of
                  Inl e \<Rightarrow> Inl e
                | Inr er \<Rightarrow>
                    Inl (new_Error (js_or er
                      (str (''Server error ('' @ decimal status @ ''). Please try again.'')))))
             else
               (case get_prop (Some d) ''articles'' of
                  Inl e \<Rightarrow> Inl e
                | Inr ar \<Rightarrow>
                    if truthy ar \<and> isArray ar then Inr (st\<lparr>articles := Some d\<rparr>)
                    else
                      (case get_prop (Some d) ''message'' of
                         Inl e \<Rightarrow> Inl e
                       | Inr m \<Rightarrow>
                           if truthy m then Inr (st\<lparr>error := m\<rparr>)
                           else Inl (Exn ''Invalid response format from server'')))))"

definition NewsSearcher_catch :: "js_exn \<Rightarrow> ns_state \<Rightarrow> ns_state" where
  "NewsSearcher_catch e st =
     st\<lparr>error := js_or (str (message e)) (str ''Failed to search articles. Please try again.''),
        articles := null\<rparr>"

definition NewsSearcher_finally :: "ns_state \<Rightarrow> ns_state" where
  "NewsSearcher_finally st = st\<lparr>isLoading := False\<rparr>"

definition NewsSearcher_handleSubmit_settle :: "fetch_outcome \<Rightarrow> ns_state \<Rightarrow> ns_state" where
  "NewsSearcher_handleSubmit_settle out st =
     NewsSearcher_finally
       (case NewsSearcher_try out st of
          Inr st' \<Rightarrow> st'
        | Inl e \<Rightarrow> NewsSearcher_catch e st)"

subsection \<open>SourcesGenerator.jsx\<close>

record form_topic =
  language :: string
  topic :: string

text \<open>\<^verbatim>\<open>{...prev, [name]: value}\<close> on the form with the fields \<^verbatim>\<open>language\<close> and \<^verbatim>\<open>topic\<close>.\<close>

definition set_topic_field :: "string \<Rightarrow> string \<Rightarrow> form_topic \<Rightarrow> form_topic" where
  "set_topic_field name v f =
     (if name = ''language'' then f\<lparr>language := v\<rparr>
      else if name = ''topic'' then f\<lparr>topic := v\<rparr>
      else f)"

record sg_state = "form_topic form_cells" +
  sourcesData :: jsval

definition SourcesGenerator_init :: sg_state where
  "SourcesGenerator_init =
     \<lparr>isLoading = False, error = null,
      formData = \<lparr>language = ''en'', topic = []\<rparr>, sourcesData = null\<rparr>"

definition SourcesGenerator_handleInputChange :: "string \<Rightarrow> string \<Rightarrow> sg_state \<Rightarrow> sg_state" where
  "SourcesGenerator_handleInputChange name v st =
     st\<lparr>formData := set_topic_field name v (formData st), error := null\<rparr>"

definition SourcesGenerator_handleSubmit_begin :: "sg_state \<Rightarrow> sg_state \<times> http_request option" where
  "SourcesGenerator_handleSubmit_begin st =
     (st\<lparr>isLoading := True, sourcesData := null, error := null\<rparr>,
      Some \<lparr>req_method = ''POST'', req_url = ''http://localhost:8002/sources'',
            req_params = [],
            req_headers = [(''Content-Type'', ''application/json'')],
            req_body = Some (JSON_stringify_question
              (if topic (formData st) \<noteq> [] then topic (formData st)
               else ''Show me general news sources''))\<rparr>)"

text \<open>
  The continuation reads \<^verbatim>\<open>formData\<close> from the closure of the render in which the form was
  submitted (\<open>fd\<close>), and the clock (\<open>now\<close> is \<^verbatim>\<open>new Date().toISOString()\<close>).
\<close>

definition SourcesGenerator_try ::
  "form_topic \<Rightarrow> string \<Rightarrow> fetch_outcome \<Rightarrow> sg_state \<Rightarrow> js_exn + sg_state" where
  "SourcesGenerator_try fd now out st =
     (case out of
        FetchRejected m \<Rightarrow> Inl (Exn m)
      | FetchResponse status body \<Rightarrow>
         (case body of
            Inl m \<Rightarrow> Inl (Exn m)
          | Inr d \<Rightarrow>
             if \<not> response_ok status then
               (case get_prop (Some d) ''error'' of
                  Inl e \<Rightarrow> Inl e
                | Inr er \<Rightarrow>
                    Inl (new_Error (js_or er
                      (str (''Server error ('' @ decimal status @ ''). Please try again.'')))))
             else
               (case get_prop (Some d) ''answer'' of
                  Inl e \<Rightarrow> Inl e
                | Inr ans \<Rightarrow>
                    if \<not> truthy ans
                    then Inl (Exn ''No sources found. Please try a different topic.'')
                    else
                      (case get_prop ans ''sources'' of
                         Inl e \<Rightarrow> Inl e
                       | Inr None \<Rightarrow> Inl (Exn ''No sources found. Please try a different topic.'')
                       | Inr (Some srcs) \<Rightarrow>
                           if \<not> truthy (Some srcs)
                           then Inl (Exn ''No sources found. Please try a different topic.'')
                           else if \<not> isArray (Some srcs) \<or> srcs = JArr []
                           then Inl (Exn
                             ''No sources available for this topic. Please try a different search.'')
                           else
                             Inr (st\<lparr>sourcesData := Some (JObj
                                    [(''topic'',
                                      JStr (if topic fd \<noteq> [] then topic fd else ''General News'')),
                                     (''created_at'', JStr now),
                                     (''sources'', srcs)])\<rparr>)))))"

definition SourcesGenerator_catch :: "js_exn \<Rightarrow> sg_state \<Rightarrow> sg_state" where
  "SourcesGenerator_catch e st =
     st\<lparr>error := js_or (str (message e)) (str ''Failed to generate sources. Please try again.''),
        sourcesData := null\<rparr>"

definition SourcesGenerator_finally :: "sg_state \<Rightarrow> sg_state" where
  "SourcesGenerator_finally st = st\<lparr>isLoading := False\<rparr>"

definition SourcesGenerator_handleSubmit_settle ::
  "form_topic \<Rightarrow> string \<Rightarrow> fetch_outcome \<Rightarrow> sg_state \<Rightarrow> sg_state" where
  "SourcesGenerator_handleSubmit_settle fd now out st =
     SourcesGenerator_finally
       (case SourcesGenerator_try fd now out st of
          Inr st' \<Rightarrow> st'
        | Inl e \<Rightarrow> SourcesGenerator_catch e st)"

subsection \<open>NewsAggregator\<close>

record na_state = "form_topic form_cells" +
  data :: jsval

definition NewsAggregator_init :: na_state where
  "NewsAggregator_init =
     \<lparr>isLoading = False, error = null,
      formData = \<lparr>language = ''en'', topic = []\<rparr>, data = null\<rparr>"

definition NewsAggregator_handleInputChange :: "string \<Rightarrow> string \<Rightarrow> na_state \<Rightarrow> na_state" where
  "NewsAggregator_handleInputChange name v st =
     st\<lparr>formData := set_topic_field name v (formData st), error := null\<rparr>"

definition NewsAggregator_handleSubmit_begin :: "na_state \<Rightarrow> na_state \<times> http_request option" where
  "NewsAggregator_handleSubmit_begin st =
     (st\<lparr>isLoading := True, data := null, error := null\<rparr>,
      Some \<lparr>req_method = ''GET'',
            req_url = ''http://localhost:8003/coordinate?question='' @
              encodeURIComponent (topic (formData st)),
            req_params = [], req_headers = [], req_body = None\<rparr>)"

definition NewsAggregator_try :: "fetch_outcome \<Rightarrow> na_state \<Rightarrow> js_exn + na_state" where
  "NewsAggregator_try out st =
     (case out of
        FetchRejected m \<Rightarrow> Inl (Exn m)
      | FetchResponse status body \<Rightarrow>
         (case body of
            Inl m \<Rightarrow> Inl (Exn m)
          | Inr d \<Rightarrow>
             if \<not> response_ok status then
               (case get_prop (Some d) ''error'' of
                  Inl e \<Rightarrow> Inl e
                | Inr er \<Rightarrow>
                    Inl (new_Error (js_or er
                      (str (''Server error ('' @ decimal status @ '')'')))))
             else Inr (st\<lparr>data := Some d\<rparr>)))"

definition NewsAggregator_catch :: "js_exn \<Rightarrow> na_state \<Rightarrow> na_state" where
  "NewsAggregator_catch e st =
     st\<lparr>error := js_or (str (message e)) (str ''Failed to fetch data'')\<rparr>"

definition NewsAggregator_finally :: "na_state \<Rightarrow> na_state" where
  "NewsAggregator_finally st = st\<lparr>isLoading := False\<rparr>"

definition NewsAggregator_handleSubmit_settle :: "fetch_outcome \<Rightarrow> na_state \<Rightarrow> na_state" where
  "NewsAggregator_handleSubmit_settle out st =
     NewsAggregator_finally
       (case NewsAggregator_try out st of
          Inr st' \<Rightarrow> st'
        | Inl e \<Rightarrow> NewsAggregator_catch e st)"


section \<open>The view state of a page\<close>

text \<open>
  The tagged union of the data model: a page is loading, shows a payload, shows an error, or
  is idle.  The pages test their cells for truthiness when they render (\<^verbatim>\<open>{error && ...}\<close>), so
  a cell is active when it is truthy; \<open>view_of\<close> is \<open>None\<close> when more than one is active.
\<close>

datatype ViewState = Idle | Loading | Success jsval | Error jsval

definition view_of :: "bool \<Rightarrow> jsval \<Rightarrow> jsval \<Rightarrow> ViewState option" where
  "view_of l d e =
     (if l \<and> \<not> truthy d \<and> \<not> truthy e then Some Loading
      else if \<not> l \<and> truthy d \<and> \<not> truthy e then Some (Success d)
      else if \<not> l \<and> \<not> truthy d \<and> truthy e then Some (Error e)
      else if \<not> l \<and> \<not> truthy d \<and> \<not> truthy e then Some Idle
      else None)"

definition HelloWorldGenerator_view :: "hw_state \<Rightarrow> ViewState option" where
  "HelloWorldGenerator_view st = view_of (isLoading st) (answer st) (error st)"

definition NewsSearcher_view :: "ns_state \<Rightarrow> ViewState option" where
  "NewsSearcher_view st = view_of (isLoading st) (articles st) (error st)"

definition SourcesGenerator_view :: "sg_state \<Rightarrow> ViewState option" where
  "SourcesGenerator_view st = view_of (isLoading st) (sourcesData st) (error st)"

definition NewsAggregator_view :: "na_state \<Rightarrow> ViewState option" where
  "NewsAggregator_view st = view_of (isLoading st) (data st) (error st)"

definition settled :: "ViewState option \<Rightarrow> bool" where
  "settled v = (case v of Some (Success d) \<Rightarrow> True | Some (Error e) \<Rightarrow> True | _ \<Rightarrow> False)"



section \<open>The controls of the forms\<close>

text \<open>
  What a user can do to a page: change an input, submit the form, and (not the user, the
  network) settle the request in flight.  The JSX decides which of these can happen:
  \<^item> every input and select carries \<^verbatim>\<open>disabled={isLoading}\<close>, so no change event fires while loading;
  \<^item> the submit button carries \<^verbatim>\<open>disabled={isLoading}\<close> (on the Hello-World page
    \<^verbatim>\<open>disabled={isLoading || !question}\<close>), so no submit event fires then;
  \<^item> an input marked \<^verbatim>\<open>required\<close> that is empty makes the browser refuse the submission: the
    \<^verbatim>\<open>onSubmit\<close> handler is not called.
  A step is \<open>None\<close> when the event cannot happen.  The cells of a page are paired with its
  request in flight: a flag, or on the Sources Generator the \<^verbatim>\<open>formData\<close> captured by the closure
  of the handler that waits for the response.
\<close>

datatype 'o ui_event = Change string string | Submit | Settle 'o

fun run :: "('e \<Rightarrow> 's \<Rightarrow> 's option) \<Rightarrow> 'e list \<Rightarrow> 's \<Rightarrow> 's option" where
  "run step [] s = Some s"
| "run step (e # es) s = (case step e s of None \<Rightarrow> None | Some s' \<Rightarrow> run step es s')"

fun HelloWorldGenerator_step ::
  "axios_outcome ui_event \<Rightarrow> hw_state \<times> bool \<Rightarrow> (hw_state \<times> bool) option" where
  "HelloWorldGenerator_step (Change name v) (st, inflight) =
     (if isLoading st then None
      else Some (HelloWorldGenerator_handleInputChange v st, inflight))"
| "HelloWorldGenerator_step Submit (st, inflight) =
     (if isLoading st \<or> question st = [] then None
      else (case HelloWorldGenerator_handleSubmit_begin st of
              (st', None) \<Rightarrow> Some (st', inflight)
            | (st', Some r) \<Rightarrow> Some (st', True)))"
| "HelloWorldGenerator_step (Settle out) (st, inflight) =
     (if inflight then Some (HelloWorldGenerator_handleSubmit_settle out st, False) else None)"

fun NewsSearcher_step ::
  "fetch_outcome ui_event \<Rightarrow> ns_state \<times> bool \<Rightarrow> (ns_state \<times> bool) option" where
  "NewsSearcher_step (Change name v) (st, inflight) =
     (if isLoading st then None
      else Some (NewsSearcher_handleInputChange name v st, inflight))"
| "NewsSearcher_step Submit (st, inflight) =
     (if isLoading st \<or> url (formData st) = [] \<or> query (formData st) = [] then None
      else (case NewsSearcher_handleSubmit_begin st of
              (st', None) \<Rightarrow> Some (st', inflight)
            | (st', Some r) \<Rightarrow> Some (st', True)))"
| "NewsSearcher_step (Settle out) (st, inflight) =
     (if inflight then Some (NewsSearcher_handleSubmit_settle out st, False) else None)"

fun SourcesGenerator_step ::
  "(fetch_outcome \<times> string) ui_event \<Rightarrow> sg_state \<times> form_topic option \<Rightarrow>
     (sg_state \<times> form_topic option) option" where
  "SourcesGenerator_step (Change name v) (st, inflight) =
     (if isLoading st then None
      else Some (SourcesGenerator_handleInputChange name v st, inflight))"
| "SourcesGenerator_step Submit (st, inflight) =
     (if isLoading st then None
      else (case SourcesGenerator_handleSubmit_begin st of
              (st', None) \<Rightarrow> Some (st', inflight)
            | (st', Some r) \<Rightarrow> Some (st', Some (formData st))))"
| "SourcesGenerator_step (Settle (out, now)) (st, inflight) =
     (case inflight of
        None \<Rightarrow> None
      | Some fd \<Rightarrow> Some (SourcesGenerator_handleSubmit_settle fd now out st, None))"

fun NewsAggregator_step ::
  "fetch_outcome ui_event \<Rightarrow> na_state \<times> bool \<Rightarrow> (na_state \<times> bool) option" where
  "NewsAggregator_step (Change name v) (st, inflight) =
     (if isLoading st then None
      else Some (NewsAggregator_handleInputChange name v st, inflight))"
| "NewsAggregator_step Submit (st, inflight) =
     (if isLoading st \<or> topic (formData st) = [] then None
      else (case NewsAggregator_handleSubmit_begin st of
              (st', None) \<Rightarrow> Some (st', inflight)
            | (st', Some r) \<Rightarrow> Some (st', True)))"
| "NewsAggregator_step (Settle out) (st, inflight) =
     (if inflight then Some (NewsAggregator_handleSubmit_settle out st, False) else None)"

section \<open>Rendering\<close>

text \<open>
  A component is a function from its props to a tree of React elements.  \<open>VText\<close> is literal
  JSX text, \<open>VVal\<close> a JavaScript value in child position (\<^verbatim>\<open>{expr}\<close>), \<open>VElem\<close> a host element
  with its props and children, \<open>VList\<close> an array of children (the result of \<^verbatim>\<open>map\<close>, or a
  fragment).  The \<^verbatim>\<open>className\<close>, \<^verbatim>\<open>key\<close> and event-handler props are left out.  A component that
  throws while it builds its tree is \<open>Inl\<close>.
\<close>

datatype vnode =
    VText string
  | VVal jsval
  | VElem string "(string \<times> jsval) list" "vnode list"
  | VList "vnode list"

text \<open>The elements with a given tag, and the literal texts, anywhere in a tree.\<close>

fun elems_named :: "string \<Rightarrow> vnode \<Rightarrow> vnode list" where
  "elems_named t (VText s) = []"
| "elems_named t (VVal v) = []"
| "elems_named t (VElem tag ps cs) =
     (if tag = t then [VElem tag ps cs] else []) @ concat (map (elems_named t) cs)"
| "elems_named t (VList cs) = concat (map (elems_named t) cs)"

fun texts_of :: "vnode \<Rightarrow> string list" where
  "texts_of (VText s) = [s]"
| "texts_of (VVal v) = []"
| "texts_of (VElem tag ps cs) = concat (map texts_of cs)"
| "texts_of (VList cs) = concat (map texts_of cs)"

text \<open>\<^verbatim>\<open>xs.map(f)\<close> where \<^verbatim>\<open>f\<close> may throw: the first exception ends the loop.\<close>

fun map_exn :: "('a \<Rightarrow> js_exn + 'b) \<Rightarrow> 'a list \<Rightarrow> js_exn + 'b list" where
  "map_exn f [] = Inr []"
| "map_exn f (x # xs) =
     (case f x of
        Inl e \<Rightarrow> Inl e
      | Inr y \<Rightarrow> (case map_exn f xs of Inl e \<Rightarrow> Inl e | Inr ys \<Rightarrow> Inr (y # ys)))"

text \<open>Evaluate \<open>m\<close>; if it threw, so does the whole expression, else go on with its value.\<close>

definition then_do :: "js_exn + 'a \<Rightarrow> ('a \<Rightarrow> js_exn + 'b) \<Rightarrow> js_exn + 'b" where
  "then_do m f = (case m of Inl e \<Rightarrow> Inl e | Inr x \<Rightarrow> f x)"

subsection \<open>SourceCard (SourcesGenerator.jsx, and the same component in NewsAggregator)\<close>

definition isValidUrl :: "host \<Rightarrow> jsval \<Rightarrow> bool" where
  "isValidUrl h u = parses_as_URL h (ToString u)"

definition strip_scheme :: "string \<Rightarrow> string" where
  "strip_scheme s =
     (if startsWith s ''http://'' then drop 7 s
      else if startsWith s ''https://'' then drop 8 s
      else s)"

definition strip_trailing_slash :: "string \<Rightarrow> string" where
  "strip_trailing_slash s = (if s \<noteq> [] \<and> last s = CHR ''/'' then butlast s else s)"

text \<open>
  \<^verbatim>\<open>formatUrl\<close>: on a string, the two \<^verbatim>\<open>replace\<close> calls and the cut at 40; on anything else
  \<^verbatim>\<open>url.replace\<close> throws and the \<^verbatim>\<open>catch\<close> returns the argument.
\<close>

definition formatUrl :: "jsval \<Rightarrow> jsval" where
  "formatUrl u =
     (case u of
        Some (JStr s) \<Rightarrow>
          (let formatted = strip_trailing_slash (strip_scheme s)
           in str (if length formatted > 40 then take 40 formatted @ ''...'' else formatted))
      | _ \<Rightarrow> u)"

definition SourceCard :: "host \<Rightarrow> jsval \<Rightarrow> js_exn + vnode" where
  "SourceCard h source =
     then_do (get_prop source ''name'') (\<lambda>nm.
     then_do (get_prop source ''description'') (\<lambda>ds.
     then_do (get_prop source ''url'') (\<lambda>u.
       Inr (VElem ''div'' []
         [VElem ''h3'' [] [VVal (js_or nm (str ''Unnamed Source''))],
          VElem ''div'' [] [],
          VElem ''p'' [] [VVal (js_or ds (str ''No description available''))],
          VElem ''div'' []
            [if isValidUrl h u
             then VList
               [VElem ''p'' [] [VVal (formatUrl u)],
                VElem ''a'' [(''href'', u), (''target'', str ''_blank''),
                             (''rel'', str ''noopener noreferrer'')] [VText ''Visit Source'']]
             else VElem ''p'' [] [VText ''Invalid or missing URL'']]]))))"

subsection \<open>ArticleCard\<close>

definition formatDate :: "host \<Rightarrow> jsval \<Rightarrow> string" where
  "formatDate h dateString =
     (if \<not> truthy dateString then ''Date not available'' else toLocaleDateString h dateString)"

text \<open>
  \<^verbatim>\<open>{len > 0 && (<p>Authors: {article.authors.join(', ')}</p>)}\<close>, where \<open>len\<close> is the length read
  from \<^verbatim>\<open>article.authors\<close>.  Only an array has a \<^verbatim>\<open>join\<close> method.
\<close>

definition authors_line :: "host \<Rightarrow> jsval \<Rightarrow> jsval \<Rightarrow> js_exn + vnode" where
  "authors_line h au len =
     (if js_gt0 h len then
        (case au of
           Some (JArr xs) \<Rightarrow> Inr (VElem ''p'' [] [VText ''Authors: '', VVal (str (js_join '', '' xs))])
         | _ \<Rightarrow> Inl (Exn ''article.authors.join is not a function''))
      else Inr (VVal (Some (JBool False))))"

definition article_tree :: "host \<Rightarrow> jsval \<Rightarrow> jsval \<Rightarrow> jsval \<Rightarrow> jsval \<Rightarrow> jsval \<Rightarrow> vnode \<Rightarrow> jsval \<Rightarrow> jsval \<Rightarrow> vnode" where
  "article_tree h title image_url summary category publish_date authors source_domain link =
     VElem ''div'' []
       [VElem ''h3'' [] [VVal title],
        VElem ''div'' [] [],
        (if truthy image_url then VElem ''img'' [(''src'', image_url), (''alt'', title)] []
         else VVal image_url),
        VElem ''p'' [] [VVal (js_or summary (str ''No summary available''))],
        VElem ''div'' []
          [VElem ''div'' []
             [VElem ''p'' [] [VText ''Category: '', VVal category],
              VElem ''p'' [] [VText ''Published: '', VVal (str (formatDate h publish_date))],
              authors,
              VElem ''p'' [] [VText ''Source: '', VVal source_domain]],
           VElem ''a'' [(''href'', link), (''target'', str ''_blank''),
                        (''rel'', str ''noopener noreferrer'')] [VText ''Read Article'']]]"

text \<open>The card of App.js (NewsSearcher): \<^verbatim>\<open>article.authors.length > 0\<close>.\<close>

definition NewsSearcher_ArticleCard :: "host \<Rightarrow> jsval \<Rightarrow> js_exn + vnode" where
  "NewsSearcher_ArticleCard h article =
     then_do (get_prop article ''title'') (\<lambda>title.
     then_do (get_prop article ''image_url'') (\<lambda>image_url.
     then_do (get_prop article ''summary'') (\<lambda>summary.
     then_do (get_prop article ''category'') (\<lambda>category.
     then_do (get_prop article ''publish_date'') (\<lambda>publish_date.
     then_do (get_prop article ''authors'') (\<lambda>au.
     then_do (get_prop au ''length'') (\<lambda>len.
     then_do (authors_line h au len) (\<lambda>authors.
     then_do (get_prop article ''source_domain'') (\<lambda>source_domain.
     then_do (get_prop article ''url'') (\<lambda>link.
       Inr (article_tree h title image_url summary category publish_date authors
              source_domain link)))))))))))"

text \<open>The card of NewsAggregator: \<^verbatim>\<open>article.authors?.length > 0\<close>.\<close>

definition NewsAggregator_ArticleCard :: "host \<Rightarrow> jsval \<Rightarrow> js_exn + vnode" where
  "NewsAggregator_ArticleCard h article =
     then_do (get_prop article ''title'') (\<lambda>title.
     then_do (get_prop article ''image_url'') (\<lambda>image_url.
     then_do (get_prop article ''summary'') (\<lambda>summary.
     then_do (get_prop article ''category'') (\<lambda>category.
     then_do (get_prop article ''publish_date'') (\<lambda>publish_date.
     then_do (get_prop article ''authors'') (\<lambda>au.
     then_do (authors_line h au (opt_prop au ''length'')) (\<lambda>authors.
     then_do (get_prop article ''source_domain'') (\<lambda>source_domain.
     then_do (get_prop article ''url'') (\<lambda>link.
       Inr (article_tree h title image_url summary category publish_date authors
              source_domain link))))))))))"

subsection \<open>The grids of cards\<close>

text \<open>
  \<^verbatim>\<open>v.map(f)\<close> on a value read from the payload: only an array has \<^verbatim>\<open>map\<close>.
\<close>

definition map_cards :: "(jsval \<Rightarrow> js_exn + vnode) \<Rightarrow> string \<Rightarrow> jsval \<Rightarrow> js_exn + vnode" where
  "map_cards render what v =
     (case v of
        None \<Rightarrow> Inl (Exn (cannot_read ''undefined'' ''map''))
      | Some JNull \<Rightarrow> Inl (Exn (cannot_read ''null'' ''map''))
      | Some (JArr xs) \<Rightarrow> then_do (map_exn (\<lambda>x. render (Some x)) xs) (\<lambda>cards. Inr (VList cards))
      | _ \<Rightarrow> Inl (Exn (what @ ''.map is not a function'')))"

text \<open>NewsSearcher, the grid under the heading; \<open>arts\<close> is the cell \<^verbatim>\<open>articles\<close>.\<close>

definition NewsSearcher_grid :: "host \<Rightarrow> jsval \<Rightarrow> js_exn + vnode" where
  "NewsSearcher_grid h arts =
     then_do (get_prop arts ''articles'') (\<lambda>lst.
     then_do (get_prop lst ''length'') (\<lambda>len.
       if js_gt0 h len then
         then_do (map_cards (NewsSearcher_ArticleCard h) ''articles.articles'' lst) (\<lambda>cards.
           Inr (VElem ''div'' [] [cards]))
       else Inr (VElem ''div'' [] [VElem ''div'' [] [VText ''No articles found'']])))"

text \<open>SourcesGenerator, the grid under the heading; \<open>sd\<close> is the cell \<^verbatim>\<open>sourcesData\<close>.\<close>

definition SourcesGenerator_grid :: "host \<Rightarrow> jsval \<Rightarrow> js_exn + vnode" where
  "SourcesGenerator_grid h sd =
     then_do (get_prop sd ''sources'') (\<lambda>lst.
     then_do (get_prop lst ''length'') (\<lambda>len.
       if js_gt0 h len then
         then_do (map_cards (SourceCard h) ''sourcesData.sources'' lst) (\<lambda>cards.
           Inr (VElem ''div'' [] [cards]))
       else Inr (VElem ''div'' [] [VElem ''div'' [] [VText ''No sources available'']])))"

text \<open>NewsAggregator, the two grids; \<open>d\<close> is the cell \<^verbatim>\<open>data\<close>.\<close>

definition NewsAggregator_articles_grid :: "host \<Rightarrow> jsval \<Rightarrow> js_exn + vnode" where
  "NewsAggregator_articles_grid h d =
     then_do (get_prop d ''articles'') (\<lambda>lst.
     then_do (map_cards (NewsAggregator_ArticleCard h) ''data.articles'' lst) (\<lambda>cards.
       Inr (VElem ''div'' [] [cards])))"

definition NewsAggregator_sources_grid :: "host \<Rightarrow> jsval \<Rightarrow> js_exn + vnode" where
  "NewsAggregator_sources_grid h d =
     then_do (get_prop d ''sources'') (\<lambda>lst.
     then_do (map_cards (SourceCard h) ''data.sources'' lst) (\<lambda>cards.
       Inr (VElem ''div'' [] [cards])))"

text \<open>
  The records of the data model as they arrive in a payload: an object; for an Article, one
  whose \<^verbatim>\<open>authors\<close> is a list.
\<close>

fun is_record :: "json \<Rightarrow> bool" where
  "is_record (JObj kvs) = True"
| "is_record j = False"

fun is_Article :: "json \<Rightarrow> bool" where
  "is_Article (JObj kvs) = isArray (map_of (rev kvs) ''authors'')"
| "is_Article j = False"

text \<open>A host for the worked examples: URLs start with a scheme, dates print as given.\<close>

definition example_host :: host where
  "example_host =
     \<lparr>parses_as_URL = (\<lambda>s. startsWith s ''http://'' \<or> startsWith s ''https://''),
      toLocaleDateString = ToString,
      string_gt0 = (\<lambda>s. False)\<rparr>"


section \<open>Invariants of the pages\<close>

text \<open>
  At most one of loading, payload and error is active; while loading neither payload nor error is.
\<close>

definition exclusive :: "bool \<Rightarrow> jsval \<Rightarrow> jsval \<Rightarrow> bool" where
  "exclusive l d e = (if l then \<not> truthy d \<and> \<not> truthy e else \<not> (truthy d \<and> truthy e))"

text \<open>
  What holds of a page and its request in flight after any sequence of events: the page is
  loading exactly when a request is in flight, and its cells exclude each other (on the
  Hello-World page, up to the validation error shown beside an earlier answer).
\<close>

definition NewsSearcher_inv :: "ns_state \<times> bool \<Rightarrow> bool" where
  "NewsSearcher_inv s =
     ((isLoading (fst s) = snd s) \<and> exclusive (isLoading (fst s)) (articles (fst s)) (error (fst s)))"

definition SourcesGenerator_inv :: "sg_state \<times> form_topic option \<Rightarrow> bool" where
  "SourcesGenerator_inv s =
     ((isLoading (fst s) = (snd s \<noteq> None)) \<and>
      exclusive (isLoading (fst s)) (sourcesData (fst s)) (error (fst s)))"

definition NewsAggregator_inv :: "na_state \<times> bool \<Rightarrow> bool" where
  "NewsAggregator_inv s =
     ((isLoading (fst s) = snd s) \<and> exclusive (isLoading (fst s)) (data (fst s)) (error (fst s)))"

definition HelloWorldGenerator_inv :: "hw_state \<times> bool \<Rightarrow> bool" where
  "HelloWorldGenerator_inv s =
     ((isLoading (fst s) = snd s) \<and>
      (if isLoading (fst s) then \<not> truthy (answer (fst s)) \<and> \<not> truthy (error (fst s))
       else if truthy (answer (fst s)) \<and> truthy (error (fst s))
       then error (fst s) = str ''Please enter a question'' else True))"

text \<open>A payload of two Source records for the worked examples.\<close>

definition two_sources :: "json list" where
  "two_sources =
     [JObj [(''name'', JStr ''Wire''), (''url'', JStr ''https://wire.example'')],
      JObj [(''description'', JStr ''Local paper''), (''url'', JStr ''gazette'')]]"

section \<open>Properties\<close>

subsection \<open>One submission: Idle, Loading, then Success or Error\<close>

lemma decimal_nonempty: "decimal n \<noteq> []"
  by (subst decimal.simps) simp

lemma truthy_str: "truthy (str s) = (s \<noteq> [])"
  by (simp add: str_def)

lemma not_truthy_null: "\<not> truthy null"
  by (simp add: null_def)

lemma truthy_js_or: "truthy b \<Longrightarrow> truthy (js_or a b)"
  by (simp add: js_or_def)

lemma HW_catch_error: "truthy (error (HelloWorldGenerator_catch e st))"
  by (cases e) (auto simp: HelloWorldGenerator_catch_def truthy_js_or truthy_str decimal_nonempty split: option.splits)

lemma HW_catch_other:
  "answer (HelloWorldGenerator_catch e st) = answer st"
  "isLoading (HelloWorldGenerator_catch e st) = isLoading st"
  "question (HelloWorldGenerator_catch e st) = question st"
  by (auto simp: HelloWorldGenerator_catch_def split: option.splits)

lemma HW_try_Inr:
  assumes "HelloWorldGenerator_try out st = Inr st'"
  shows "truthy (answer st')" "error st' = error st" "isLoading st' = isLoading st"
  using assms
  by (auto simp: HelloWorldGenerator_try_def split: axios_outcome.splits if_splits sum.splits)

lemma HW_settle_settled:
  assumes "\<not> truthy (answer st)" "\<not> truthy (error st)"
  shows "settled (HelloWorldGenerator_view (HelloWorldGenerator_handleSubmit_settle out st))"
proof (cases "HelloWorldGenerator_try out st")
  case (Inl e)
  then show ?thesis using assms HW_catch_error[of e st]
    by (simp add: HelloWorldGenerator_handleSubmit_settle_def HelloWorldGenerator_finally_def
        HelloWorldGenerator_view_def view_of_def settled_def HW_catch_other)
next
  case (Inr st')
  show ?thesis using Inr assms HW_try_Inr[OF Inr]
    by (simp add: HelloWorldGenerator_handleSubmit_settle_def HelloWorldGenerator_finally_def
        HelloWorldGenerator_view_def view_of_def settled_def)
qed


lemma truthy_catch_msg: "truthy (js_or (str m) (str (c # cs)))"
  by (simp add: js_or_def str_def)

lemma get_prop_array_truthy:
  "get_prop (Some d) ''articles'' = Inr ar \<Longrightarrow> isArray ar \<Longrightarrow> truthy (Some d)"
  by (cases d) (auto simp: isArray_def)

lemma NS_try_Inr:
  assumes "NewsSearcher_try out st = Inr st'"
  shows "isLoading st' = isLoading st"
    and "(truthy (articles st') \<and> error st' = error st) \<or> (truthy (error st') \<and> articles st' = articles st)"
  using assms
  by (auto simp: NewsSearcher_try_def get_prop_array_truthy
      split: fetch_outcome.splits if_splits sum.splits)

lemma NS_settle_settled:
  assumes "\<not> truthy (articles st)" "\<not> truthy (error st)"
  shows "settled (NewsSearcher_view (NewsSearcher_handleSubmit_settle out st))"
proof (cases "NewsSearcher_try out st")
  case (Inl e)
  then show ?thesis
    by (simp add: NewsSearcher_handleSubmit_settle_def NewsSearcher_finally_def
        NewsSearcher_catch_def NewsSearcher_view_def view_of_def settled_def truthy_catch_msg
        not_truthy_null)
next
  case (Inr st')
  show ?thesis using Inr assms NS_try_Inr[OF Inr]
    by (auto simp add: NewsSearcher_handleSubmit_settle_def NewsSearcher_finally_def
        NewsSearcher_view_def view_of_def settled_def)
qed

lemma SG_try_Inr:
  assumes "SourcesGenerator_try fd now out st = Inr st'"
  shows "isLoading st' = isLoading st" "truthy (sourcesData st')" "error st' = error st"
  using assms
  by (auto simp: SourcesGenerator_try_def
      split: fetch_outcome.splits if_splits sum.splits option.splits)

lemma SG_settle_settled:
  assumes "\<not> truthy (sourcesData st)" "\<not> truthy (error st)"
  shows "settled (SourcesGenerator_view (SourcesGenerator_handleSubmit_settle fd now out st))"
proof (cases "SourcesGenerator_try fd now out st")
  case (Inl e)
  then show ?thesis
    by (simp add: SourcesGenerator_handleSubmit_settle_def SourcesGenerator_finally_def
        SourcesGenerator_catch_def SourcesGenerator_view_def view_of_def settled_def truthy_catch_msg
        not_truthy_null)
next
  case (Inr st')
  show ?thesis using Inr assms SG_try_Inr[OF Inr]
    by (auto simp add: SourcesGenerator_handleSubmit_settle_def SourcesGenerator_finally_def
        SourcesGenerator_view_def view_of_def settled_def)
qed












subsection \<open>Server errors and unreachable servers\<close>

lemma get_prop_opt_prop: "get_prop v k = Inr r \<Longrightarrow> opt_prop v k = r"
  by (cases v; cases "the v") auto

lemma js_or_nonempty_str: "X \<noteq> [] \<Longrightarrow> js_or (str X) b = str X"
  by (simp add: js_or_def str_def)

lemma js_or_str_msg: "js_or (str m) (str f) = str (if m = [] then f else m)"
  by (simp add: js_or_def str_def)

lemma new_Error_str: "new_Error (str X) = Exn X"
  by (simp add: new_Error_def str_def)

lemma NS_settle_server_error:
  assumes "X \<noteq> []" "\<not> response_ok status" "get_prop (Some d) ''error'' = Inr (str X)"
  shows "error (NewsSearcher_handleSubmit_settle (FetchResponse status (Inr d)) st) = str X"
    and "\<not> isLoading (NewsSearcher_handleSubmit_settle (FetchResponse status (Inr d)) st)"
  using assms
  by (simp_all add: NewsSearcher_handleSubmit_settle_def NewsSearcher_try_def
      NewsSearcher_catch_def NewsSearcher_finally_def js_or_nonempty_str new_Error_str)

lemma SG_settle_server_error:
  assumes "X \<noteq> []" "\<not> response_ok status" "get_prop (Some d) ''error'' = Inr (str X)"
  shows "error (SourcesGenerator_handleSubmit_settle fd now (FetchResponse status (Inr d)) st) = str X"
    and "\<not> isLoading (SourcesGenerator_handleSubmit_settle fd now (FetchResponse status (Inr d)) st)"
  using assms
  by (simp_all add: SourcesGenerator_handleSubmit_settle_def SourcesGenerator_try_def
      SourcesGenerator_catch_def SourcesGenerator_finally_def js_or_nonempty_str new_Error_str)

lemma NA_settle_server_error:
  assumes "X \<noteq> []" "\<not> response_ok status" "get_prop (Some d) ''error'' = Inr (str X)"
  shows "error (NewsAggregator_handleSubmit_settle (FetchResponse status (Inr d)) st) = str X"
    and "\<not> isLoading (NewsAggregator_handleSubmit_settle (FetchResponse status (Inr d)) st)"
  using assms
  by (simp_all add: NewsAggregator_handleSubmit_settle_def NewsAggregator_try_def
      NewsAggregator_catch_def NewsAggregator_finally_def js_or_nonempty_str new_Error_str)

lemma HW_settle_server_error:
  assumes "X \<noteq> []" "get_prop d ''error'' = Inr (str X)"
  shows "error (HelloWorldGenerator_handleSubmit_settle
           (AxiosRejected (AxiosError (Some (status, d)) rq m)) st) = str X"
    and "\<not> isLoading (HelloWorldGenerator_handleSubmit_settle
           (AxiosRejected (AxiosError (Some (status, d)) rq m)) st)"
  using assms get_prop_opt_prop[OF assms(2)]
  by (simp_all add: HelloWorldGenerator_handleSubmit_settle_def HelloWorldGenerator_try_def
      HelloWorldGenerator_catch_def HelloWorldGenerator_finally_def js_or_nonempty_str)

text \<open>
  Claim C2 as stated fails when the value under \<^verbatim>\<open>error\<close> is falsy: the handlers compute
  \<^verbatim>\<open>data.error || `Server error (...)`\<close>.  A 500 response with the body \<^verbatim>\<open>{"error": ""}\<close> ends
  with the status text, not with the empty string.
\<close>

theorem server_error_empty_is_replaced:
  "\<not> response_ok 500 \<and>
   get_prop (Some (JObj [(''error'', JStr [])])) ''error'' = Inr (str []) \<and>
   error (NewsSearcher_handleSubmit_settle (FetchResponse 500 (Inr (JObj [(''error'', JStr [])])))
            (fst (NewsSearcher_handleSubmit_begin NewsSearcher_init)))
     = str ''Server error (500). Please try again.'' \<and>
   str ''Server error (500). Please try again.'' \<noteq> str []"
  by (simp add: NewsSearcher_handleSubmit_settle_def NewsSearcher_try_def
      NewsSearcher_catch_def NewsSearcher_finally_def NewsSearcher_handleSubmit_begin_def
      NewsSearcher_init_def response_ok_def str_def js_or_def new_Error_def
      decimal.simps digit_char_def)

text \<open>
  Claim C2, amended.  For every submission that receives a non-2xx response whose JSON body
  has, under the key \<^verbatim>\<open>error\<close>, a non-empty string \<open>X\<close>: on every page the request settles
  with the error cell equal to \<open>X\<close>, and the page no longer loading.
\<close>

theorem server_error_shown_verbatim:
  assumes "X \<noteq> []" and "\<not> response_ok status"
    and "get_prop (Some d) ''error'' = Inr (str X)"
  shows
   "error (NewsSearcher_handleSubmit_settle (FetchResponse status (Inr d)) ns) = str X \<and>
    \<not> isLoading (NewsSearcher_handleSubmit_settle (FetchResponse status (Inr d)) ns) \<and>
    error (SourcesGenerator_handleSubmit_settle fd now (FetchResponse status (Inr d)) sg) = str X \<and>
    \<not> isLoading (SourcesGenerator_handleSubmit_settle fd now (FetchResponse status (Inr d)) sg) \<and>
    error (NewsAggregator_handleSubmit_settle (FetchResponse status (Inr d)) na) = str X \<and>
    \<not> isLoading (NewsAggregator_handleSubmit_settle (FetchResponse status (Inr d)) na) \<and>
    error (HelloWorldGenerator_handleSubmit_settle
             (AxiosRejected (AxiosError (Some (status, Some d)) rq m)) hw) = str X \<and>
    \<not> isLoading (HelloWorldGenerator_handleSubmit_settle
             (AxiosRejected (AxiosError (Some (status, Some d)) rq m)) hw)"
  using NS_settle_server_error[OF assms] SG_settle_server_error[OF assms]
    NA_settle_server_error[OF assms] HW_settle_server_error[OF assms(1,3)]
  by blast

theorem server_error_shown_verbatim_witness:
  "''boom'' \<noteq> [] \<and> \<not> response_ok 500 \<and>
   get_prop (Some (JObj [(''error'', JStr ''boom'')])) ''error'' = Inr (str ''boom'') \<and>
   error (NewsSearcher_handleSubmit_settle
            (FetchResponse 500 (Inr (JObj [(''error'', JStr ''boom'')]))) NewsSearcher_init)
     = str ''boom'' \<and>
   error (HelloWorldGenerator_handleSubmit_settle
            (AxiosRejected (AxiosError (Some (500, Some (JObj [(''error'', JStr ''boom'')]))) True
               ''Request failed with status code 500'')) HelloWorldGenerator_init)
     = str ''boom''"
proof -
  have h1: "''boom'' \<noteq> []" by simp
  have h2: "\<not> response_ok 500" by (simp add: response_ok_def)
  have h3: "get_prop (Some (JObj [(''error'', JStr ''boom'')])) ''error'' = Inr (str ''boom'')"
    by (simp add: str_def)
  from server_error_shown_verbatim[OF h1 h2 h3, of NewsSearcher_init _ _ _ _ True
      "''Request failed with status code 500''" HelloWorldGenerator_init] h1 h2 h3
  show ?thesis by blast
qed

text \<open>
  Claim C4 as stated fails on the pages that use \<^verbatim>\<open>fetch\<close>: when the network is unreachable
  \<^verbatim>\<open>fetch\<close> rejects, and the \<^verbatim>\<open>catch\<close> clause shows the exception's own message.  The Hello-World
  page (axios) shows its fixed string.
\<close>

theorem no_response_messages_differ:
  "error (NewsSearcher_handleSubmit_settle (FetchRejected ''Failed to fetch'')
            (fst (NewsSearcher_handleSubmit_begin NewsSearcher_init)))
     = str ''Failed to fetch'' \<and>
   error (HelloWorldGenerator_handleSubmit_settle
            (AxiosRejected (AxiosError None True ''Network Error''))
            (fst (HelloWorldGenerator_handleSubmit_begin (HelloWorldGenerator_init\<lparr>question := ''hi''\<rparr>))))
     = str ''No response from server. Please check if the backend is running.'' \<and>
   str ''Failed to fetch'' \<noteq> str ''No response from server. Please check if the backend is running.''"
  by (simp add: NewsSearcher_handleSubmit_settle_def NewsSearcher_try_def
      NewsSearcher_catch_def NewsSearcher_finally_def NewsSearcher_handleSubmit_begin_def
      HelloWorldGenerator_handleSubmit_settle_def HelloWorldGenerator_try_def
      HelloWorldGenerator_catch_def HelloWorldGenerator_finally_def
      HelloWorldGenerator_handleSubmit_begin_def str_def js_or_def)

text \<open>
  Claim C4, amended.  When a request was made and no response was received, the Hello-World
  page shows the fixed message \<^verbatim>\<open>No response from server. Please check if the backend is running.\<close>
  whatever the exception says; the News Searcher, the Sources Generator and the News Aggregator
  show the message of the rejection, or the page's own fallback string when that message is
  empty.
\<close>

theorem no_response_message:
  "error (HelloWorldGenerator_handleSubmit_settle (AxiosRejected (AxiosError None True m)) hw)
     = str ''No response from server. Please check if the backend is running.'' \<and>
   error (NewsSearcher_handleSubmit_settle (FetchRejected m) ns)
     = str (if m = [] then ''Failed to search articles. Please try again.'' else m) \<and>
   error (SourcesGenerator_handleSubmit_settle fd now (FetchRejected m) sg)
     = str (if m = [] then ''Failed to generate sources. Please try again.'' else m) \<and>
   error (NewsAggregator_handleSubmit_settle (FetchRejected m) na)
     = str (if m = [] then ''Failed to fetch data'' else m)"
  by (simp add: NewsSearcher_handleSubmit_settle_def NewsSearcher_try_def
      NewsSearcher_catch_def NewsSearcher_finally_def
      SourcesGenerator_handleSubmit_settle_def SourcesGenerator_try_def
      SourcesGenerator_catch_def SourcesGenerator_finally_def
      NewsAggregator_handleSubmit_settle_def NewsAggregator_try_def
      NewsAggregator_catch_def NewsAggregator_finally_def
      HelloWorldGenerator_handleSubmit_settle_def HelloWorldGenerator_try_def
      HelloWorldGenerator_catch_def HelloWorldGenerator_finally_def js_or_str_msg)

theorem no_response_message_witness:
  "error (HelloWorldGenerator_handleSubmit_settle
            (AxiosRejected (AxiosError None True ''Network Error'')) HelloWorldGenerator_init)
     = str ''No response from server. Please check if the backend is running.'' \<and>
   error (SourcesGenerator_handleSubmit_settle (formData SourcesGenerator_init) ''2025-01-01''
            (FetchRejected ''Load failed'') SourcesGenerator_init)
     = str ''Load failed'' \<and>
   error (NewsAggregator_handleSubmit_settle (FetchRejected []) NewsAggregator_init)
     = str ''Failed to fetch data''"
  using no_response_message[of "''Network Error''" HelloWorldGenerator_init]
    no_response_message[of "''Load failed''" _ _ "formData SourcesGenerator_init" "''2025-01-01''"
      SourcesGenerator_init]
    no_response_message[of "[]" _ _ _ _ _ NewsAggregator_init]
  by simp

subsection \<open>Validation, the language field, and the default topic\<close>




text \<open>
  Claim C8.  On the News Aggregator and on the Sources Generator, two forms that agree on the
  topic dispatch the same request (method, URL, headers and body), whatever their languages.
\<close>

theorem language_not_in_request:
  "(topic (formData a) = topic (formData b) \<longrightarrow>
      snd (NewsAggregator_handleSubmit_begin a) = snd (NewsAggregator_handleSubmit_begin b)) \<and>
   (topic (formData c) = topic (formData d) \<longrightarrow>
      snd (SourcesGenerator_handleSubmit_begin c) = snd (SourcesGenerator_handleSubmit_begin d))"
  by (simp add: NewsAggregator_handleSubmit_begin_def SourcesGenerator_handleSubmit_begin_def)

theorem language_not_in_request_witness:
  "language (formData (NewsAggregator_init\<lparr>formData := \<lparr>language = ''en'', topic = ''ai''\<rparr>\<rparr>)) \<noteq>
   language (formData (NewsAggregator_init\<lparr>formData := \<lparr>language = ''fr'', topic = ''ai''\<rparr>\<rparr>)) \<and>
   snd (NewsAggregator_handleSubmit_begin
          (NewsAggregator_init\<lparr>formData := \<lparr>language = ''en'', topic = ''ai''\<rparr>\<rparr>)) =
   snd (NewsAggregator_handleSubmit_begin
          (NewsAggregator_init\<lparr>formData := \<lparr>language = ''fr'', topic = ''ai''\<rparr>\<rparr>)) \<and>
   snd (SourcesGenerator_handleSubmit_begin
          (SourcesGenerator_init\<lparr>formData := \<lparr>language = ''hi'', topic = ''ai''\<rparr>\<rparr>)) =
   snd (SourcesGenerator_handleSubmit_begin
          (SourcesGenerator_init\<lparr>formData := \<lparr>language = ''kn'', topic = ''ai''\<rparr>\<rparr>))"
  using language_not_in_request
    [of "NewsAggregator_init\<lparr>formData := \<lparr>language = ''en'', topic = ''ai''\<rparr>\<rparr>"
        "NewsAggregator_init\<lparr>formData := \<lparr>language = ''fr'', topic = ''ai''\<rparr>\<rparr>"
        "SourcesGenerator_init\<lparr>formData := \<lparr>language = ''hi'', topic = ''ai''\<rparr>\<rparr>"
        "SourcesGenerator_init\<lparr>formData := \<lparr>language = ''kn'', topic = ''ai''\<rparr>\<rparr>"]
  by simp

lemma json_escape_nonempty: "json_escape c \<noteq> []"
  by (simp add: json_escape_def Let_def)

lemma escape_all_empty: "(\<forall>c\<in>set q. json_escape c = []) \<longleftrightarrow> q = []"
  by (cases q) (auto simp: json_escape_nonempty)

lemma JSON_stringify_question_empty:
  "JSON_stringify_question q = JSON_stringify_question [] \<Longrightarrow> q = []"
  by (simp add: JSON_stringify_question_def QuoteJSONString_def escape_all_empty)

lemma SG_body_question:
  "req_body (the (snd (SourcesGenerator_handleSubmit_begin st))) =
     Some (JSON_stringify_question
       (if topic (formData st) \<noteq> [] then topic (formData st) else ''Show me general news sources''))"
  by (simp add: SourcesGenerator_handleSubmit_begin_def)

lemma SG_body_never_empty_question:
  "snd (SourcesGenerator_handleSubmit_begin st) = Some r \<Longrightarrow>
     req_body r \<noteq> Some (JSON_stringify_question [])"
  by (auto simp: SourcesGenerator_handleSubmit_begin_def split: if_splits
      dest!: JSON_stringify_question_empty)

lemma SG_try_topic:
  assumes "SourcesGenerator_try fd now out st = Inr st'"
  shows "get_prop (sourcesData st') ''topic'' =
           Inr (str (if topic fd \<noteq> [] then topic fd else ''General News''))"
  using assms
  by (auto simp: SourcesGenerator_try_def str_def
      split: fetch_outcome.splits if_splits sum.splits option.splits)

lemma default_body_literal:
  \<open>JSON_stringify_question ''Show me general news sources'' =
     ''{"question":"Show me general news sources"}''\<close>
  by (simp add: JSON_stringify_question_def QuoteJSONString_def json_escape_def)

lemma empty_body_literal:
  \<open>JSON_stringify_question [] = ''{"question":""}''\<close>
  by (simp add: JSON_stringify_question_def QuoteJSONString_def json_escape_def)

text \<open>
  Claim C10.  In the Sources Generator, when the topic is the empty string the request is a
  POST to \<^verbatim>\<open>/sources\<close> whose body is the JSON \<^verbatim>\<open>{"question":"Show me general news sources"}\<close>;
  when the request succeeds the stored \<^verbatim>\<open>topic\<close> is \<^verbatim>\<open>General News\<close>; and no form makes the page
  send the empty string as the question.
\<close>

theorem empty_topic_defaults:
  \<open>(topic (formData sg) = [] \<longrightarrow>
      snd (SourcesGenerator_handleSubmit_begin sg) =
        Some \<lparr>req_method = ''POST'', req_url = ''http://localhost:8002/sources'',
              req_params = [], req_headers = [(''Content-Type'', ''application/json'')],
              req_body = Some ''{"question":"Show me general news sources"}''\<rparr>) \<and>
   (topic (formData sg) = [] \<and>
    SourcesGenerator_try (formData sg) now out (fst (SourcesGenerator_handleSubmit_begin sg)) = Inr st' \<longrightarrow>
      get_prop (sourcesData st') ''topic'' = Inr (str ''General News'')) \<and>
   (snd (SourcesGenerator_handleSubmit_begin sg') = Some r \<longrightarrow>
      req_body r \<noteq> Some ''{"question":""}'')\<close>
proof -
  have a: "snd (SourcesGenerator_handleSubmit_begin sg) =
        Some \<lparr>req_method = ''POST'', req_url = ''http://localhost:8002/sources'',
              req_params = [], req_headers = [(''Content-Type'', ''application/json'')],
              req_body = Some (JSON_stringify_question ''Show me general news sources'')\<rparr>"
    if "topic (formData sg) = []"
    using that by (simp add: SourcesGenerator_handleSubmit_begin_def)
  show ?thesis
    using a SG_try_topic[of "formData sg" now out _ st'] SG_body_never_empty_question[of sg' r]
    by (auto simp: default_body_literal empty_body_literal)
qed

theorem empty_topic_defaults_witness:
  \<open>topic (formData SourcesGenerator_init) = [] \<and>
   req_body (the (snd (SourcesGenerator_handleSubmit_begin SourcesGenerator_init))) =
     Some ''{"question":"Show me general news sources"}'' \<and>
   SourcesGenerator_try (formData SourcesGenerator_init) ''2025-01-01T00:00:00.000Z''
     (FetchResponse 200 (Inr (JObj [(''answer'', JObj [(''sources'',
         JArr [JObj [(''name'', JStr ''Wire''), (''url'', JStr ''https://wire.example'')]])])])))
     (fst (SourcesGenerator_handleSubmit_begin SourcesGenerator_init)) =
     Inr (SourcesGenerator_init\<lparr>isLoading := True, sourcesData := Some (JObj
        [(''topic'', JStr ''General News''), (''created_at'', JStr ''2025-01-01T00:00:00.000Z''),
         (''sources'', JArr [JObj [(''name'', JStr ''Wire''), (''url'', JStr ''https://wire.example'')]])])\<rparr>) \<and>
   get_prop (Some (JObj
        [(''topic'', JStr ''General News''), (''created_at'', JStr ''2025-01-01T00:00:00.000Z''),
         (''sources'', JArr [JObj [(''name'', JStr ''Wire''), (''url'', JStr ''https://wire.example'')]])]))
     ''topic'' = Inr (str ''General News'')\<close>
proof -
  have h: "topic (formData SourcesGenerator_init) = []"
    by (simp add: SourcesGenerator_init_def)
  have t: \<open>SourcesGenerator_try (formData SourcesGenerator_init) ''2025-01-01T00:00:00.000Z''
     (FetchResponse 200 (Inr (JObj [(''answer'', JObj [(''sources'',
         JArr [JObj [(''name'', JStr ''Wire''), (''url'', JStr ''https://wire.example'')]])])])))
     (fst (SourcesGenerator_handleSubmit_begin SourcesGenerator_init)) =
     Inr (SourcesGenerator_init\<lparr>isLoading := True, sourcesData := Some (JObj
        [(''topic'', JStr ''General News''), (''created_at'', JStr ''2025-01-01T00:00:00.000Z''),
         (''sources'', JArr [JObj [(''name'', JStr ''Wire''), (''url'', JStr ''https://wire.example'')]])])\<rparr>)\<close>
    by (simp add: SourcesGenerator_try_def SourcesGenerator_handleSubmit_begin_def
        SourcesGenerator_init_def response_ok_def isArray_def null_def)
  from empty_topic_defaults[of SourcesGenerator_init "''2025-01-01T00:00:00.000Z''" _ _
      SourcesGenerator_init] h t
  show ?thesis by (simp add: str_def)
qed

subsection \<open>Cards\<close>

lemma map_exn_all:
  assumes "\<forall>x\<in>set xs. \<exists>c. f x = Inr c"
  shows "\<exists>cs. map_exn f xs = Inr cs \<and> length cs = length xs \<and>
           (\<forall>i<length xs. f (xs ! i) = Inr (cs ! i))"
  using assms
proof (induction xs)
  case Nil
  then show ?case by simp
next
  case (Cons x xs)
  then obtain c where c: "f x = Inr c" by auto
  from Cons obtain cs where cs: "map_exn f xs = Inr cs" "length cs = length xs"
    "\<forall>i<length xs. f (xs ! i) = Inr (cs ! i)" by auto
  have "\<forall>i<length (x # xs). f ((x # xs) ! i) = Inr ((c # cs) ! i)"
    using c cs(3) by (auto simp: nth_Cons split: nat.splits)
  with c cs show ?case by auto
qed

lemma SourceCard_record:
  "SourceCard h (Some (JObj kvs)) =
     Inr (VElem ''div'' []
       [VElem ''h3'' [] [VVal (js_or (map_of (rev kvs) ''name'') (str ''Unnamed Source''))],
        VElem ''div'' [] [],
        VElem ''p'' [] [VVal (js_or (map_of (rev kvs) ''description'') (str ''No description available''))],
        VElem ''div'' []
          [if isValidUrl h (map_of (rev kvs) ''url'')
           then VList
             [VElem ''p'' [] [VVal (formatUrl (map_of (rev kvs) ''url''))],
              VElem ''a'' [(''href'', map_of (rev kvs) ''url''), (''target'', str ''_blank''),
                           (''rel'', str ''noopener noreferrer'')] [VText ''Visit Source'']]
           else VElem ''p'' [] [VText ''Invalid or missing URL'']]])"
  by (simp add: SourceCard_def then_do_def)

lemma SourceCard_total: "is_record s \<Longrightarrow> \<exists>c. SourceCard h (Some s) = Inr c"
  by (cases s) (simp_all add: SourceCard_record)

text \<open>
  Claim C6.  For every Source record: when \<^verbatim>\<open>new URL(source.url)\<close> succeeds the card holds
  exactly one anchor, whose \<^verbatim>\<open>href\<close> is that url, and not the fallback text; otherwise the card
  holds no anchor and shows the text \<^verbatim>\<open>Invalid or missing URL\<close>.
\<close>

theorem SourceCard_link_or_fallback:
  "\<exists>c. SourceCard h (Some (JObj kvs)) = Inr c \<and>
     (if isValidUrl h (map_of (rev kvs) ''url'')
      then elems_named ''a'' c =
             [VElem ''a'' [(''href'', map_of (rev kvs) ''url''), (''target'', str ''_blank''),
                           (''rel'', str ''noopener noreferrer'')] [VText ''Visit Source'']] \<and>
           ''Invalid or missing URL'' \<notin> set (texts_of c)
      else elems_named ''a'' c = [] \<and> ''Invalid or missing URL'' \<in> set (texts_of c))"
  by (simp add: SourceCard_record)

theorem SourceCard_link_or_fallback_witness:
  "isValidUrl example_host (str ''https://example.com/news/'') \<and>
   \<not> isValidUrl example_host (str ''example'') \<and>
   \<not> isValidUrl example_host None \<and>
   (\<exists>c. SourceCard example_host
          (Some (JObj [(''name'', JStr ''Wire''), (''url'', JStr ''https://example.com/news/'')])) = Inr c \<and>
        elems_named ''a'' c =
          [VElem ''a'' [(''href'', str ''https://example.com/news/''), (''target'', str ''_blank''),
                        (''rel'', str ''noopener noreferrer'')] [VText ''Visit Source'']]) \<and>
   (\<exists>c. SourceCard example_host (Some (JObj [(''name'', JStr ''Wire''), (''url'', JStr ''example'')])) = Inr c \<and>
        elems_named ''a'' c = [] \<and> ''Invalid or missing URL'' \<in> set (texts_of c)) \<and>
   (\<exists>c. SourceCard example_host (Some (JObj [(''name'', JStr ''Wire'')])) = Inr c \<and>
        elems_named ''a'' c = [] \<and> ''Invalid or missing URL'' \<in> set (texts_of c))"
proof -
  have v: "isValidUrl example_host (str ''https://example.com/news/'')"
    "\<not> isValidUrl example_host (str ''example'')" "\<not> isValidUrl example_host None"
    by (simp_all add: isValidUrl_def example_host_def ToString_def str_def startsWith_def)
  from v SourceCard_link_or_fallback[of example_host
      "[(''name'', JStr ''Wire''), (''url'', JStr ''https://example.com/news/'')]"]
    SourceCard_link_or_fallback[of example_host "[(''name'', JStr ''Wire''), (''url'', JStr ''example'')]"]
    SourceCard_link_or_fallback[of example_host "[(''name'', JStr ''Wire'')]"]
  show ?thesis by (auto simp: str_def)
qed

lemma NS_card_total:
  assumes "is_Article a"
  shows "\<exists>c. NewsSearcher_ArticleCard h (Some a) = Inr c"
proof (cases a)
  case (JObj kvs)
  with assms obtain xs where "map_of (rev kvs) ''authors'' = Some (JArr xs)"
    by (auto simp: isArray_def split: option.splits json.splits)
  with JObj show ?thesis
    by (simp add: NewsSearcher_ArticleCard_def then_do_def authors_line_def)
qed (use assms in simp_all)

lemma NA_card_total:
  assumes "is_Article a"
  shows "\<exists>c. NewsAggregator_ArticleCard h (Some a) = Inr c"
proof (cases a)
  case (JObj kvs)
  with assms obtain xs where "map_of (rev kvs) ''authors'' = Some (JArr xs)"
    by (auto simp: isArray_def split: option.splits json.splits)
  with JObj show ?thesis
    by (simp add: NewsAggregator_ArticleCard_def then_do_def authors_line_def)
qed (use assms in simp_all)

text \<open>
  Claim C3.  An Article without \<^verbatim>\<open>authors\<close> (and without summary, image and date): the card
  of App.js throws while reading \<^verbatim>\<open>article.authors.length\<close>, where the card of the News
  Aggregator (\<^verbatim>\<open>article.authors?.length\<close>) renders with the placeholder texts.
\<close>

theorem NewsSearcher_ArticleCard_missing_authors:
  "NewsSearcher_ArticleCard h
     (Some (JObj [(''title'', JStr ''T''), (''category'', JStr ''c''),
                  (''source_domain'', JStr ''d''), (''url'', JStr ''http://x'')]))
     = Inl (Exn (cannot_read ''undefined'' ''length'')) \<and>
   NewsAggregator_ArticleCard h
     (Some (JObj [(''title'', JStr ''T''), (''category'', JStr ''c''),
                  (''source_domain'', JStr ''d''), (''url'', JStr ''http://x'')]))
     = Inr (article_tree h (str ''T'') None None (str ''c'') None (VVal (Some (JBool False)))
              (str ''d'') (str ''http://x''))"
  by (simp add: NewsSearcher_ArticleCard_def NewsAggregator_ArticleCard_def then_do_def
      authors_line_def str_def)

lemma map_cards_array:
  assumes "\<forall>x\<in>set xs. \<exists>c. render (Some x) = Inr c"
  shows "\<exists>cards. map_cards render what (Some (JArr xs)) = Inr (VList cards) \<and>
           length cards = length xs \<and>
           (\<forall>i<length xs. render (Some (xs ! i)) = Inr (cards ! i))"
  using map_exn_all[of xs "\<lambda>x. render (Some x)", OF assms]
  by (auto simp: map_cards_def then_do_def)

lemma NS_grid_cards:
  assumes "get_prop (Some d) ''articles'' = Inr (Some (JArr xs))" "\<forall>a\<in>set xs. is_Article a"
  shows "\<exists>cards. length cards = length xs \<and>
           (\<forall>i<length xs. NewsSearcher_ArticleCard h (Some (xs ! i)) = Inr (cards ! i)) \<and>
           NewsSearcher_grid h (Some d) =
             Inr (VElem ''div'' []
               [if xs = [] then VElem ''div'' [] [VText ''No articles found''] else VList cards])"
proof -
  from assms(2) have "\<forall>x\<in>set xs. \<exists>c. NewsSearcher_ArticleCard h (Some x) = Inr c"
    by (simp add: NS_card_total)
  from map_cards_array[OF this, of "''articles.articles''"] obtain cards where
    c: "map_cards (NewsSearcher_ArticleCard h) ''articles.articles'' (Some (JArr xs)) = Inr (VList cards)"
      "length cards = length xs"
      "\<forall>i<length xs. NewsSearcher_ArticleCard h (Some (xs ! i)) = Inr (cards ! i)"
    by blast
  have "NewsSearcher_grid h (Some d) =
             Inr (VElem ''div'' []
               [if xs = [] then VElem ''div'' [] [VText ''No articles found''] else VList cards])"
    using assms(1) c(1) by (simp add: NewsSearcher_grid_def then_do_def)
  with c(2,3) show ?thesis by blast
qed

lemma NS_settle_articles:
  assumes "response_ok status" "get_prop (Some d) ''articles'' = Inr (Some (JArr xs))"
  shows "articles (NewsSearcher_handleSubmit_settle (FetchResponse status (Inr d)) st) = Some d"
  using assms
  by (simp add: NewsSearcher_handleSubmit_settle_def NewsSearcher_try_def NewsSearcher_finally_def
      isArray_def)

lemma SG_settle_sources:
  assumes "response_ok status" "get_prop (Some d) ''answer'' = Inr ans"
    "get_prop ans ''sources'' = Inr (Some (JArr xs))" "xs \<noteq> []"
  shows "get_prop (sourcesData (SourcesGenerator_handleSubmit_settle fd now
            (FetchResponse status (Inr d)) st)) ''sources'' = Inr (Some (JArr xs))"
proof -
  have "truthy ans" using assms(3) by (cases ans; cases "the ans") (auto split: if_splits)
  then show ?thesis using assms
    by (simp add: SourcesGenerator_handleSubmit_settle_def SourcesGenerator_try_def
        SourcesGenerator_finally_def isArray_def)
qed

lemma SG_grid_cards:
  assumes "get_prop sd ''sources'' = Inr (Some (JArr xs))" "\<forall>s\<in>set xs. is_record s" "xs \<noteq> []"
  shows "\<exists>cards. length cards = length xs \<and>
           (\<forall>i<length xs. SourceCard h (Some (xs ! i)) = Inr (cards ! i)) \<and>
           SourcesGenerator_grid h sd = Inr (VElem ''div'' [] [VList cards])"
proof -
  from assms(2) have "\<forall>x\<in>set xs. \<exists>c. SourceCard h (Some x) = Inr c"
    by (simp add: SourceCard_total)
  from map_cards_array[OF this, of "''sourcesData.sources''"] obtain cards where
    c: "map_cards (SourceCard h) ''sourcesData.sources'' (Some (JArr xs)) = Inr (VList cards)"
      "length cards = length xs"
      "\<forall>i<length xs. SourceCard h (Some (xs ! i)) = Inr (cards ! i)"
    by blast
  have "SourcesGenerator_grid h sd = Inr (VElem ''div'' [] [VList cards])"
    using assms(1,3) c(1) by (simp add: SourcesGenerator_grid_def then_do_def)
  with c(2,3) show ?thesis by blast
qed

lemma NA_settle_data:
  assumes "response_ok status"
  shows "data (NewsAggregator_handleSubmit_settle (FetchResponse status (Inr d)) st) = Some d"
  using assms
  by (simp add: NewsAggregator_handleSubmit_settle_def NewsAggregator_try_def
      NewsAggregator_finally_def)

lemma NA_articles_grid_cards:
  assumes "get_prop (Some d) ''articles'' = Inr (Some (JArr xs))" "\<forall>a\<in>set xs. is_Article a"
  shows "\<exists>cards. length cards = length xs \<and>
           (\<forall>i<length xs. NewsAggregator_ArticleCard h (Some (xs ! i)) = Inr (cards ! i)) \<and>
           NewsAggregator_articles_grid h (Some d) = Inr (VElem ''div'' [] [VList cards])"
proof -
  from assms(2) have "\<forall>x\<in>set xs. \<exists>c. NewsAggregator_ArticleCard h (Some x) = Inr c"
    by (simp add: NA_card_total)
  from map_cards_array[OF this, of "''data.articles''"] obtain cards where
    c: "map_cards (NewsAggregator_ArticleCard h) ''data.articles'' (Some (JArr xs)) = Inr (VList cards)"
      "length cards = length xs"
      "\<forall>i<length xs. NewsAggregator_ArticleCard h (Some (xs ! i)) = Inr (cards ! i)"
    by blast
  have "NewsAggregator_articles_grid h (Some d) = Inr (VElem ''div'' [] [VList cards])"
    using assms(1) c(1) by (simp add: NewsAggregator_articles_grid_def then_do_def)
  with c(2,3) show ?thesis by blast
qed

lemma NA_sources_grid_cards:
  assumes "get_prop (Some d) ''sources'' = Inr (Some (JArr ys))" "\<forall>s\<in>set ys. is_record s"
  shows "\<exists>cards. length cards = length ys \<and>
           (\<forall>i<length ys. SourceCard h (Some (ys ! i)) = Inr (cards ! i)) \<and>
           NewsAggregator_sources_grid h (Some d) = Inr (VElem ''div'' [] [VList cards])"
proof -
  from assms(2) have "\<forall>x\<in>set ys. \<exists>c. SourceCard h (Some x) = Inr c"
    by (simp add: SourceCard_total)
  from map_cards_array[OF this, of "''data.sources''"] obtain cards where
    c: "map_cards (SourceCard h) ''data.sources'' (Some (JArr ys)) = Inr (VList cards)"
      "length cards = length ys"
      "\<forall>i<length ys. SourceCard h (Some (ys ! i)) = Inr (cards ! i)"
    by blast
  have "NewsAggregator_sources_grid h (Some d) = Inr (VElem ''div'' [] [VList cards])"
    using assms(1) c(1) by (simp add: NewsAggregator_sources_grid_def then_do_def)
  with c(2,3) show ?thesis by blast
qed

subsection \<open>One card per entry\<close>

text \<open>
  Claim C9.  For a 2xx response with a well-formed payload (the list is an array of records;
  each Article has its list of authors), the grid shows one card per entry of the list, in
  the order of the list: the i-th card is the card of the i-th entry.  On the News Searcher an
  empty list shows the text \<^verbatim>\<open>No articles found\<close> and no card; on the Sources Generator an
  empty list is an error and no grid is shown.
\<close>

theorem one_card_per_entry:
  assumes "response_ok status"
  shows
   "(get_prop (Some d) ''articles'' = Inr (Some (JArr xs)) \<and> (\<forall>a\<in>set xs. is_Article a) \<longrightarrow>
       articles (NewsSearcher_handleSubmit_settle (FetchResponse status (Inr d)) ns) = Some d \<and>
       (\<exists>cards. length cards = length xs \<and>
          (\<forall>i<length xs. NewsSearcher_ArticleCard h (Some (xs ! i)) = Inr (cards ! i)) \<and>
          NewsSearcher_grid h
            (articles (NewsSearcher_handleSubmit_settle (FetchResponse status (Inr d)) ns)) =
            Inr (VElem ''div'' []
              [if xs = [] then VElem ''div'' [] [VText ''No articles found''] else VList cards]))) \<and>
    (get_prop (Some e) ''answer'' = Inr ans \<and> get_prop ans ''sources'' = Inr (Some (JArr ys)) \<and>
     ys \<noteq> [] \<and> (\<forall>s\<in>set ys. is_record s) \<longrightarrow>
       (\<exists>cards. length cards = length ys \<and>
          (\<forall>i<length ys. SourceCard h (Some (ys ! i)) = Inr (cards ! i)) \<and>
          SourcesGenerator_grid h
            (sourcesData (SourcesGenerator_handleSubmit_settle fd now (FetchResponse status (Inr e)) sg)) =
            Inr (VElem ''div'' [] [VList cards]))) \<and>
    (get_prop (Some r) ''articles'' = Inr (Some (JArr as)) \<and>
     get_prop (Some r) ''sources'' = Inr (Some (JArr ss)) \<and>
     (\<forall>a\<in>set as. is_Article a) \<and> (\<forall>s\<in>set ss. is_record s) \<longrightarrow>
       data (NewsAggregator_handleSubmit_settle (FetchResponse status (Inr r)) na) = Some r \<and>
       (\<exists>cards. length cards = length as \<and>
          (\<forall>i<length as. NewsAggregator_ArticleCard h (Some (as ! i)) = Inr (cards ! i)) \<and>
          NewsAggregator_articles_grid h
            (data (NewsAggregator_handleSubmit_settle (FetchResponse status (Inr r)) na)) =
            Inr (VElem ''div'' [] [VList cards])) \<and>
       (\<exists>cards. length cards = length ss \<and>
          (\<forall>i<length ss. SourceCard h (Some (ss ! i)) = Inr (cards ! i)) \<and>
          NewsAggregator_sources_grid h
            (data (NewsAggregator_handleSubmit_settle (FetchResponse status (Inr r)) na)) =
            Inr (VElem ''div'' [] [VList cards])))"
proof (intro conjI impI)
  assume a: "get_prop (Some d) ''articles'' = Inr (Some (JArr xs)) \<and> (\<forall>a\<in>set xs. is_Article a)"
  then show s: "articles (NewsSearcher_handleSubmit_settle (FetchResponse status (Inr d)) ns) = Some d"
    using NS_settle_articles[OF assms] by blast
  show "\<exists>cards. length cards = length xs \<and>
          (\<forall>i<length xs. NewsSearcher_ArticleCard h (Some (xs ! i)) = Inr (cards ! i)) \<and>
          NewsSearcher_grid h
            (articles (NewsSearcher_handleSubmit_settle (FetchResponse status (Inr d)) ns)) =
            Inr (VElem ''div'' []
              [if xs = [] then VElem ''div'' [] [VText ''No articles found''] else VList cards])"
    unfolding s using a NS_grid_cards by blast
next
  assume a: "get_prop (Some e) ''answer'' = Inr ans \<and> get_prop ans ''sources'' = Inr (Some (JArr ys)) \<and>
     ys \<noteq> [] \<and> (\<forall>s\<in>set ys. is_record s)"
  then have "get_prop (sourcesData (SourcesGenerator_handleSubmit_settle fd now
            (FetchResponse status (Inr e)) sg)) ''sources'' = Inr (Some (JArr ys))"
    using SG_settle_sources[OF assms] by blast
  from SG_grid_cards[OF this] a
  show "\<exists>cards. length cards = length ys \<and>
          (\<forall>i<length ys. SourceCard h (Some (ys ! i)) = Inr (cards ! i)) \<and>
          SourcesGenerator_grid h
            (sourcesData (SourcesGenerator_handleSubmit_settle fd now (FetchResponse status (Inr e)) sg)) =
            Inr (VElem ''div'' [] [VList cards])"
    by blast
next
  assume a: "get_prop (Some r) ''articles'' = Inr (Some (JArr as)) \<and>
     get_prop (Some r) ''sources'' = Inr (Some (JArr ss)) \<and>
     (\<forall>a\<in>set as. is_Article a) \<and> (\<forall>s\<in>set ss. is_record s)"
  show s: "data (NewsAggregator_handleSubmit_settle (FetchResponse status (Inr r)) na) = Some r"
    by (rule NA_settle_data[OF assms])
  show "\<exists>cards. length cards = length as \<and>
          (\<forall>i<length as. NewsAggregator_ArticleCard h (Some (as ! i)) = Inr (cards ! i)) \<and>
          NewsAggregator_articles_grid h
            (data (NewsAggregator_handleSubmit_settle (FetchResponse status (Inr r)) na)) =
            Inr (VElem ''div'' [] [VList cards])"
    unfolding s using a NA_articles_grid_cards by blast
  show "\<exists>cards. length cards = length ss \<and>
          (\<forall>i<length ss. SourceCard h (Some (ss ! i)) = Inr (cards ! i)) \<and>
          NewsAggregator_sources_grid h
            (data (NewsAggregator_handleSubmit_settle (FetchResponse status (Inr r)) na)) =
            Inr (VElem ''div'' [] [VList cards])"
    unfolding s using a NA_sources_grid_cards by blast
qed

theorem one_card_per_entry_witness:
  "response_ok 200 \<and>
   (\<exists>cards. length cards = 2 \<and>
      SourceCard example_host (Some (two_sources ! 0)) = Inr (cards ! 0) \<and>
      SourceCard example_host (Some (two_sources ! 1)) = Inr (cards ! 1) \<and>
      SourcesGenerator_grid example_host
        (sourcesData (SourcesGenerator_handleSubmit_settle (formData SourcesGenerator_init)
           ''2025-01-01T00:00:00.000Z''
           (FetchResponse 200 (Inr (JObj [(''answer'', JObj [(''sources'', JArr two_sources)])])))
           SourcesGenerator_init)) =
        Inr (VElem ''div'' [] [VList cards]))"
proof -
  have ok: "response_ok 200" by (simp add: response_ok_def)
  have h: "get_prop (Some (JObj [(''answer'', JObj [(''sources'', JArr two_sources)])])) ''answer''
             = Inr (Some (JObj [(''sources'', JArr two_sources)])) \<and>
           get_prop (Some (JObj [(''sources'', JArr two_sources)])) ''sources''
             = Inr (Some (JArr two_sources)) \<and>
           two_sources \<noteq> [] \<and> (\<forall>s\<in>set two_sources. is_record s)"
    by (simp add: two_sources_def)
  note t = one_card_per_entry[OF ok,
      where e = "JObj [(''answer'', JObj [(''sources'', JArr two_sources)])]"
        and ans = "Some (JObj [(''sources'', JArr two_sources)])" and ys = two_sources
        and h = example_host and fd = "formData SourcesGenerator_init"
        and now = "''2025-01-01T00:00:00.000Z''" and sg = SourcesGenerator_init,
      THEN conjunct2, THEN conjunct1, THEN mp, OF h]
  then obtain cards where c: "length cards = length two_sources"
    "\<forall>i<length two_sources. SourceCard example_host (Some (two_sources ! i)) = Inr (cards ! i)"
    "SourcesGenerator_grid example_host
        (sourcesData (SourcesGenerator_handleSubmit_settle (formData SourcesGenerator_init)
           ''2025-01-01T00:00:00.000Z''
           (FetchResponse 200 (Inr (JObj [(''answer'', JObj [(''sources'', JArr two_sources)])])))
           SourcesGenerator_init)) =
        Inr (VElem ''div'' [] [VList cards])"
    by (elim exE conjE)
  have l: "length two_sources = 2" by (simp add: two_sources_def)
  from c(2) l have c0: "SourceCard example_host (Some (two_sources ! 0)) = Inr (cards ! 0)"
    and c1: "SourceCard example_host (Some (two_sources ! 1)) = Inr (cards ! 1)"
    by simp_all
  from c(1) l have c2: "length cards = 2" by simp
  show ?thesis
    by (intro conjI exI[where x = cards]) (rule ok c2 c0 c1 c(3))+
qed

subsection \<open>Reachable view states\<close>

lemma run_invariant:
  assumes step: "\<And>e s s'. P s \<Longrightarrow> step e s = Some s' \<Longrightarrow> P s'"
  shows "P s \<Longrightarrow> run step evs s = Some s' \<Longrightarrow> P s'"
proof (induction evs arbitrary: s)
  case Nil
  then show ?case by simp
next
  case (Cons e evs)
  from Cons.prems(2) obtain s1 where s1: "step e s = Some s1" "run step evs s1 = Some s'"
    by (auto split: option.splits)
  from step[OF Cons.prems(1) s1(1)] have "P s1" .
  from Cons.IH[OF this s1(2)] show ?case .
qed

lemma view_defined: "view_of l d e \<noteq> None \<longleftrightarrow> exclusive l d e"
  unfolding view_of_def exclusive_def by auto

lemma settled_exclusive: "settled (view_of False d e) \<Longrightarrow> exclusive False d e"
  by (auto simp: settled_def view_of_def exclusive_def split: if_splits)

lemma NS_settle_not_loading: "\<not> isLoading (NewsSearcher_handleSubmit_settle out st)"
  by (simp add: NewsSearcher_handleSubmit_settle_def NewsSearcher_finally_def)

lemma NS_step_inv:
  assumes "NewsSearcher_inv s" "NewsSearcher_step e s = Some s'"
  shows "NewsSearcher_inv s'"
proof (cases s)
  case (Pair st fl)
  show ?thesis
  proof (cases e)
    case (Change name v)
    with Pair assms show ?thesis
      by (auto simp: NewsSearcher_inv_def exclusive_def
          NewsSearcher_handleInputChange_def not_truthy_null split: if_splits)
  next
    case Submit
    with Pair assms show ?thesis
      by (auto simp: NewsSearcher_inv_def exclusive_def
          NewsSearcher_handleSubmit_begin_def not_truthy_null split: if_splits)
  next
    case (Settle out)
    with Pair assms have l: "\<not> truthy (articles st)" "\<not> truthy (error st)"
      and s': "s' = (NewsSearcher_handleSubmit_settle out st, False)"
      by (auto simp: NewsSearcher_inv_def exclusive_def split: if_splits)
    from NS_settle_settled[OF l, of out] s' show ?thesis
      by (simp add: NewsSearcher_inv_def NewsSearcher_view_def NS_settle_not_loading
          settled_exclusive)
  qed
qed

lemma SG_settle_not_loading: "\<not> isLoading (SourcesGenerator_handleSubmit_settle fd now out st)"
  by (simp add: SourcesGenerator_handleSubmit_settle_def SourcesGenerator_finally_def)

lemma SG_step_inv:
  assumes "SourcesGenerator_inv s" "SourcesGenerator_step e s = Some s'"
  shows "SourcesGenerator_inv s'"
proof (cases s)
  case (Pair st fl)
  show ?thesis
  proof (cases e)
    case (Change name v)
    with Pair assms show ?thesis
      by (auto simp: SourcesGenerator_inv_def exclusive_def
          SourcesGenerator_handleInputChange_def not_truthy_null split: if_splits)
  next
    case Submit
    with Pair assms show ?thesis
      by (auto simp: SourcesGenerator_inv_def exclusive_def
          SourcesGenerator_handleSubmit_begin_def not_truthy_null split: if_splits)
  next
    case (Settle p)
    obtain out now where p: "p = (out, now)" by (cases p)
    with Settle Pair assms obtain fd where l: "\<not> truthy (sourcesData st)" "\<not> truthy (error st)"
      and s': "s' = (SourcesGenerator_handleSubmit_settle fd now out st, None)"
      by (auto simp: SourcesGenerator_inv_def exclusive_def
          split: if_splits option.splits)
    from SG_settle_settled[OF l, of fd now out] s' show ?thesis
      by (simp add: SourcesGenerator_inv_def SourcesGenerator_view_def SG_settle_not_loading
          settled_exclusive)
  qed
qed

lemma NA_settle_not_loading: "\<not> isLoading (NewsAggregator_handleSubmit_settle out st)"
  by (simp add: NewsAggregator_handleSubmit_settle_def NewsAggregator_finally_def)

lemma NA_settle_exclusive:
  assumes "\<not> truthy (data st)" "\<not> truthy (error st)"
  shows "exclusive False (data (NewsAggregator_handleSubmit_settle out st))
           (error (NewsAggregator_handleSubmit_settle out st))"
proof (cases "NewsAggregator_try out st")
  case (Inl e)
  then show ?thesis using assms
    by (simp add: NewsAggregator_handleSubmit_settle_def NewsAggregator_finally_def
        NewsAggregator_catch_def exclusive_def)
next
  case (Inr st')
  then have "error st' = error st"
    by (auto simp: NewsAggregator_try_def split: fetch_outcome.splits sum.splits if_splits)
  with Inr show ?thesis using assms
    by (simp add: NewsAggregator_handleSubmit_settle_def NewsAggregator_finally_def exclusive_def)
qed

lemma NA_step_inv:
  assumes "NewsAggregator_inv s" "NewsAggregator_step e s = Some s'"
  shows "NewsAggregator_inv s'"
proof (cases s)
  case (Pair st fl)
  show ?thesis
  proof (cases e)
    case (Change name v)
    with Pair assms show ?thesis
      by (auto simp: NewsAggregator_inv_def exclusive_def
          NewsAggregator_handleInputChange_def not_truthy_null split: if_splits)
  next
    case Submit
    with Pair assms show ?thesis
      by (auto simp: NewsAggregator_inv_def exclusive_def
          NewsAggregator_handleSubmit_begin_def not_truthy_null split: if_splits)
  next
    case (Settle out)
    with Pair assms have l: "\<not> truthy (data st)" "\<not> truthy (error st)"
      and s': "s' = (NewsAggregator_handleSubmit_settle out st, False)"
      by (auto simp: NewsAggregator_inv_def exclusive_def split: if_splits)
    from NA_settle_exclusive[OF l, of out] s' show ?thesis
      by (simp add: NewsAggregator_inv_def NA_settle_not_loading)
  qed
qed

lemma HW_settle_not_loading: "\<not> isLoading (HelloWorldGenerator_handleSubmit_settle out st)"
  by (simp add: HelloWorldGenerator_handleSubmit_settle_def HelloWorldGenerator_finally_def)

lemma settled_one:
  "settled (view_of l d e) \<Longrightarrow> \<not> (truthy d \<and> truthy e)"
  by (auto simp: settled_def view_of_def split: if_splits)

lemma HW_step_inv:
  assumes "HelloWorldGenerator_inv s" "HelloWorldGenerator_step e s = Some s'"
  shows "HelloWorldGenerator_inv s'"
proof (cases s)
  case (Pair st fl)
  show ?thesis
  proof (cases e)
    case (Change name v)
    with Pair assms show ?thesis
      by (auto simp: HelloWorldGenerator_inv_def
          HelloWorldGenerator_handleInputChange_def not_truthy_null split: if_splits)
  next
    case Submit
    with Pair assms show ?thesis
      by (auto simp: HelloWorldGenerator_inv_def
          HelloWorldGenerator_handleSubmit_begin_def not_truthy_null truthy_str split: if_splits)
  next
    case (Settle out)
    with Pair assms have l: "\<not> truthy (answer st)" "\<not> truthy (error st)"
      and s': "s' = (HelloWorldGenerator_handleSubmit_settle out st, False)"
      by (auto simp: HelloWorldGenerator_inv_def split: if_splits)
    from HW_settle_settled[OF l, of out] s' show ?thesis
      by (auto simp: HelloWorldGenerator_inv_def HelloWorldGenerator_view_def HW_settle_not_loading
          dest: settled_one)
  qed
qed

lemma init_inv:
  "NewsSearcher_inv (NewsSearcher_init, False)"
  "SourcesGenerator_inv (SourcesGenerator_init, None)"
  "NewsAggregator_inv (NewsAggregator_init, False)"
  "HelloWorldGenerator_inv (HelloWorldGenerator_init, False)"
  by (simp_all add: NewsSearcher_inv_def SourcesGenerator_inv_def NewsAggregator_inv_def
      HelloWorldGenerator_inv_def NewsSearcher_init_def SourcesGenerator_init_def
      NewsAggregator_init_def HelloWorldGenerator_init_def exclusive_def not_truthy_null truthy_str)

lemma NS_run_inv:
  assumes "NewsSearcher_inv s" "run NewsSearcher_step evs s = Some s'"
  shows "NewsSearcher_inv s'"
proof (rule run_invariant[where P = NewsSearcher_inv and step = NewsSearcher_step])
  show "NewsSearcher_inv s" by (rule assms(1))
  show "run NewsSearcher_step evs s = Some s'" by (rule assms(2))
qed (rule NS_step_inv)

lemma SG_run_inv:
  assumes "SourcesGenerator_inv s" "run SourcesGenerator_step evs s = Some s'"
  shows "SourcesGenerator_inv s'"
proof (rule run_invariant[where P = SourcesGenerator_inv and step = SourcesGenerator_step])
  show "SourcesGenerator_inv s" by (rule assms(1))
  show "run SourcesGenerator_step evs s = Some s'" by (rule assms(2))
qed (rule SG_step_inv)

lemma NA_run_inv:
  assumes "NewsAggregator_inv s" "run NewsAggregator_step evs s = Some s'"
  shows "NewsAggregator_inv s'"
proof (rule run_invariant[where P = NewsAggregator_inv and step = NewsAggregator_step])
  show "NewsAggregator_inv s" by (rule assms(1))
  show "run NewsAggregator_step evs s = Some s'" by (rule assms(2))
qed (rule NA_step_inv)

lemma HW_run_inv:
  assumes "HelloWorldGenerator_inv s" "run HelloWorldGenerator_step evs s = Some s'"
  shows "HelloWorldGenerator_inv s'"
proof (rule run_invariant[where P = HelloWorldGenerator_inv and step = HelloWorldGenerator_step])
  show "HelloWorldGenerator_inv s" by (rule assms(1))
  show "run HelloWorldGenerator_step evs s = Some s'" by (rule assms(2))
qed (rule HW_step_inv)

text \<open>
  Claim C7 as stated fails on the Hello-World page: after an answer is shown, submitting a
  question of blanks sets the validation error and leaves the answer in place.
\<close>

theorem HelloWorld_answer_and_error_together:
  "run HelloWorldGenerator_step
     [Change ''question'' ''hi'', Submit,
      Settle (AxiosResolved 200 (Some (JObj [(''answer'', JStr ''hello'')]))),
      Change ''question'' '' '', Submit]
     (HelloWorldGenerator_init, False) =
   Some (\<lparr>isLoading = False, error = str ''Please enter a question'', question = '' '',
          answer = str ''hello''\<rparr>, False) \<and>
   truthy (str ''hello'') \<and> truthy (str ''Please enter a question'') \<and>
   HelloWorldGenerator_view
     \<lparr>isLoading = False, error = str ''Please enter a question'', question = '' '',
      answer = str ''hello''\<rparr> = None"
  by (simp add: HelloWorldGenerator_init_def HelloWorldGenerator_handleInputChange_def
      HelloWorldGenerator_handleSubmit_begin_def HelloWorldGenerator_handleSubmit_settle_def
      HelloWorldGenerator_try_def HelloWorldGenerator_finally_def HelloWorldGenerator_view_def
      view_of_def trim_def is_js_space_def str_def null_def)

text \<open>
  Claim C7, amended.  In every state a user can reach through the controls: on the News
  Searcher, the Sources Generator and the News Aggregator exactly one variant of the view
  state is active (loading, a truthy payload and a truthy error exclude each other); on the
  Hello-World page loading excludes both an answer and an error, and an answer and an error
  are shown together only when the error is \<^verbatim>\<open>Please enter a question\<close>.
\<close>

theorem view_cells_exclusive:
  "(run NewsSearcher_step evs (NewsSearcher_init, False) = Some (ns, fl) \<longrightarrow>
      NewsSearcher_view ns \<noteq> None) \<and>
   (run SourcesGenerator_step evs' (SourcesGenerator_init, None) = Some (sg, fl') \<longrightarrow>
      SourcesGenerator_view sg \<noteq> None) \<and>
   (run NewsAggregator_step evs'' (NewsAggregator_init, False) = Some (na, fl'') \<longrightarrow>
      NewsAggregator_view na \<noteq> None) \<and>
   (run HelloWorldGenerator_step evs''' (HelloWorldGenerator_init, False) = Some (hw, fl''') \<longrightarrow>
      (isLoading hw \<longrightarrow> \<not> truthy (answer hw) \<and> \<not> truthy (error hw)) \<and>
      (truthy (answer hw) \<and> truthy (error hw) \<longrightarrow> error hw = str ''Please enter a question''))"
proof -
  have ns: "NewsSearcher_view ns \<noteq> None"
    if "run NewsSearcher_step evs (NewsSearcher_init, False) = Some (ns, fl)"
    using NS_run_inv[OF init_inv(1) that]
    unfolding NewsSearcher_view_def view_defined by (auto simp: NewsSearcher_inv_def)
  have sg: "SourcesGenerator_view sg \<noteq> None"
    if "run SourcesGenerator_step evs' (SourcesGenerator_init, None) = Some (sg, fl')"
    using SG_run_inv[OF init_inv(2) that]
    unfolding SourcesGenerator_view_def view_defined by (auto simp: SourcesGenerator_inv_def)
  have na: "NewsAggregator_view na \<noteq> None"
    if "run NewsAggregator_step evs'' (NewsAggregator_init, False) = Some (na, fl'')"
    using NA_run_inv[OF init_inv(3) that]
    unfolding NewsAggregator_view_def view_defined by (auto simp: NewsAggregator_inv_def)
  have hw: "(isLoading hw \<longrightarrow> \<not> truthy (answer hw) \<and> \<not> truthy (error hw)) \<and>
      (truthy (answer hw) \<and> truthy (error hw) \<longrightarrow> error hw = str ''Please enter a question'')"
    if "run HelloWorldGenerator_step evs''' (HelloWorldGenerator_init, False) = Some (hw, fl''')"
    using HW_run_inv[OF init_inv(4) that]
    by (auto simp: HelloWorldGenerator_inv_def split: if_splits)
  show ?thesis using ns sg na hw by blast
qed

lemmas page_defs =
  NewsSearcher_init_def NewsSearcher_handleInputChange_def NewsSearcher_handleSubmit_begin_def
  NewsSearcher_handleSubmit_settle_def NewsSearcher_try_def NewsSearcher_catch_def
  NewsSearcher_finally_def set_search_field_def
  SourcesGenerator_init_def SourcesGenerator_handleInputChange_def
  SourcesGenerator_handleSubmit_begin_def SourcesGenerator_handleSubmit_settle_def
  SourcesGenerator_try_def SourcesGenerator_catch_def SourcesGenerator_finally_def
  set_topic_field_def
  NewsAggregator_init_def NewsAggregator_handleInputChange_def
  NewsAggregator_handleSubmit_begin_def NewsAggregator_handleSubmit_settle_def
  NewsAggregator_try_def NewsAggregator_catch_def NewsAggregator_finally_def
  HelloWorldGenerator_init_def HelloWorldGenerator_handleInputChange_def
  HelloWorldGenerator_handleSubmit_begin_def HelloWorldGenerator_handleSubmit_settle_def
  HelloWorldGenerator_try_def HelloWorldGenerator_catch_def HelloWorldGenerator_finally_def
  response_ok_def isArray_def startsWith_def trim_def is_js_space_def js_or_def new_Error_def

theorem view_cells_exclusive_witness:
  "run NewsSearcher_step
     [Change ''url'' ''cnn.com'', Change ''query'' ''ai'', Submit,
      Settle (FetchResponse 200 (Inr (JObj [(''articles'', JArr [])])))]
     (NewsSearcher_init, False) =
   Some (\<lparr>isLoading = False, error = null,
          formData = \<lparr>url = ''https://www.cnn.com'', query = ''ai'', method = ''combined''\<rparr>,
          articles = Some (JObj [(''articles'', JArr [])])\<rparr>, False) \<and>
   NewsSearcher_view
     \<lparr>isLoading = False, error = null,
      formData = \<lparr>url = ''https://www.cnn.com'', query = ''ai'', method = ''combined''\<rparr>,
      articles = Some (JObj [(''articles'', JArr [])])\<rparr> \<noteq> None \<and>
   run SourcesGenerator_step
     [Submit, Settle (FetchResponse 200 (Inr (JObj [(''answer'', JObj [(''sources'', JArr [])])])),
                      ''2025-01-01'')]
     (SourcesGenerator_init, None) =
   Some (\<lparr>isLoading = False,
          error = str ''No sources available for this topic. Please try a different search.'',
          formData = \<lparr>language = ''en'', topic = []\<rparr>, sourcesData = null\<rparr>, None) \<and>
   SourcesGenerator_view
     \<lparr>isLoading = False,
      error = str ''No sources available for this topic. Please try a different search.'',
      formData = \<lparr>language = ''en'', topic = []\<rparr>, sourcesData = null\<rparr> \<noteq> None \<and>
   run NewsAggregator_step
     [Change ''topic'' ''ai'', Submit, Settle (FetchRejected ''Failed to fetch'')]
     (NewsAggregator_init, False) =
   Some (\<lparr>isLoading = False, error = str ''Failed to fetch'',
          formData = \<lparr>language = ''en'', topic = ''ai''\<rparr>, data = null\<rparr>, False) \<and>
   NewsAggregator_view
     \<lparr>isLoading = False, error = str ''Failed to fetch'',
      formData = \<lparr>language = ''en'', topic = ''ai''\<rparr>, data = null\<rparr> \<noteq> None \<and>
   run HelloWorldGenerator_step [Change ''question'' ''hi'', Submit] (HelloWorldGenerator_init, False) =
   Some (\<lparr>isLoading = True, error = null, question = ''hi'', answer = str []\<rparr>, True) \<and>
   \<not> truthy (str []) \<and> \<not> truthy null"
proof -
  have ns: "run NewsSearcher_step
     [Change ''url'' ''cnn.com'', Change ''query'' ''ai'', Submit,
      Settle (FetchResponse 200 (Inr (JObj [(''articles'', JArr [])])))]
     (NewsSearcher_init, False) =
   Some (\<lparr>isLoading = False, error = null,
          formData = \<lparr>url = ''https://www.cnn.com'', query = ''ai'', method = ''combined''\<rparr>,
          articles = Some (JObj [(''articles'', JArr [])])\<rparr>, False)"
    by (simp add: page_defs)
  have sg: "run SourcesGenerator_step
     [Submit, Settle (FetchResponse 200 (Inr (JObj [(''answer'', JObj [(''sources'', JArr [])])])),
                      ''2025-01-01'')]
     (SourcesGenerator_init, None) =
   Some (\<lparr>isLoading = False,
          error = str ''No sources available for this topic. Please try a different search.'',
          formData = \<lparr>language = ''en'', topic = []\<rparr>, sourcesData = null\<rparr>, None)"
    by (simp add: page_defs str_def)
  have na: "run NewsAggregator_step
     [Change ''topic'' ''ai'', Submit, Settle (FetchRejected ''Failed to fetch'')]
     (NewsAggregator_init, False) =
   Some (\<lparr>isLoading = False, error = str ''Failed to fetch'',
          formData = \<lparr>language = ''en'', topic = ''ai''\<rparr>, data = null\<rparr>, False)"
    by (simp add: page_defs str_def)
  have hw: "run HelloWorldGenerator_step [Change ''question'' ''hi'', Submit]
      (HelloWorldGenerator_init, False) =
   Some (\<lparr>isLoading = True, error = null, question = ''hi'', answer = str []\<rparr>, True)"
    by (simp add: page_defs)
  from view_cells_exclusive[where evs = "[Change ''url'' ''cnn.com'', Change ''query'' ''ai'', Submit,
      Settle (FetchResponse 200 (Inr (JObj [(''articles'', JArr [])])))]"
      and ns = "\<lparr>isLoading = False, error = null,
          formData = \<lparr>url = ''https://www.cnn.com'', query = ''ai'', method = ''combined''\<rparr>,
          articles = Some (JObj [(''articles'', JArr [])])\<rparr>"
      and fl = False
      and evs' = "[Submit, Settle (FetchResponse 200 (Inr (JObj [(''answer'', JObj [(''sources'', JArr [])])])),
                      ''2025-01-01'')]"
      and sg = "\<lparr>isLoading = False,
          error = str ''No sources available for this topic. Please try a different search.'',
          formData = \<lparr>language = ''en'', topic = []\<rparr>, sourcesData = null\<rparr>"
      and fl' = None
      and evs'' = "[Change ''topic'' ''ai'', Submit, Settle (FetchRejected ''Failed to fetch'')]"
      and na = "\<lparr>isLoading = False, error = str ''Failed to fetch'',
          formData = \<lparr>language = ''en'', topic = ''ai''\<rparr>, data = null\<rparr>"
      and fl'' = False
      and evs''' = "[Change ''question'' ''hi'', Submit]"
      and hw = "\<lparr>isLoading = True, error = null, question = ''hi'', answer = str []\<rparr>"
      and fl''' = True]
  show ?thesis unfolding ns sg na hw by simp
qed

end
